theory Spec2Isabelle
  imports Complex_Main
begin

chapter \<open>The preprocessing handlers of hh\_preprocess\<close>

text \<open>
  A shallow embedding of the five handlers of the package \<open>hh_preprocess\<close>
  (\<open>clean_cols.py\<close>, \<open>job_category.py\<close>, \<open>parse_education.py\<close>,
  \<open>parse_location.py\<close>, \<open>parse_salary.py\<close>) and of the text utilities they use
  (\<open>utils/text.py\<close>), followed by the properties proved about them.
\<close>

section \<open>Python strings\<close>

text \<open>
  A Python \<open>str\<close> is a sequence of Unicode code points, modelled as a list of
  natural numbers. ASCII literals of the source are written \<open>ascii ''...''\<close>;
  Cyrillic literals are written as their code points (U+0430 = 1072 is the small
  Cyrillic a, U+044F = 1103 the small ya), with a transliteration beside them.

  Python's Unicode tables are not part of the repository. The model fixes them as
  follows: \<open>is_space\<close> is exactly the set on which \<open>str.isspace\<close> and the regex
  class \<open>\s\<close> hold; \<open>is_digit\<close> is exactly the set of decimal digits of Unicode
  14.0 (CPython 3.11), on which the regex class \<open>\d\<close> holds and which \<open>int\<close> reads;
  \<open>str.lower\<close> maps the capital letters of ASCII, Latin-1 and the Cyrillic block
  U+0400..U+042F and leaves every other code point unchanged.
\<close>

type_synonym ustr = "nat list"

definition ascii :: "string \<Rightarrow> ustr" where
  "ascii s = map of_char s"

definition is_space :: "nat \<Rightarrow> bool" where
  "is_space c \<longleftrightarrow>
     (9 \<le> c \<and> c \<le> 13) \<or> (28 \<le> c \<and> c \<le> 32) \<or> c = 133 \<or> c = 160 \<or> c = 5760 \<or>
     (8192 \<le> c \<and> c \<le> 8202) \<or> c = 8232 \<or> c = 8233 \<or> c = 8239 \<or> c = 8287 \<or>
     c = 12288"

text \<open>The decimal digits come in blocks of ten consecutive code points, the digits 0
  to 9 in order; \<open>digit_blocks\<close> lists the code point of the zero of every block, the
  ASCII digits first.\<close>

definition digit_blocks :: "nat list" where
  "digit_blocks =
     [0x30, 0x660, 0x6F0, 0x7C0, 0x966, 0x9E6, 0xA66, 0xAE6, 0xB66, 0xBE6, 0xC66, 0xCE6,
      0xD66, 0xDE6, 0xE50, 0xED0, 0xF20, 0x1040, 0x1090, 0x17E0, 0x1810, 0x1946, 0x19D0,
      0x1A80, 0x1A90, 0x1B50, 0x1BB0, 0x1C40, 0x1C50, 0xA620, 0xA8D0, 0xA900, 0xA9D0,
      0xA9F0, 0xAA50, 0xABF0, 0xFF10, 0x104A0, 0x10D30, 0x11066, 0x110F0, 0x11136, 0x111D0,
      0x112F0, 0x11450, 0x114D0, 0x11650, 0x116C0, 0x11730, 0x118E0, 0x11950, 0x11C50,
      0x11D50, 0x11DA0, 0x16A60, 0x16AC0, 0x16B50, 0x1D7CE, 0x1D7D8, 0x1D7E2, 0x1D7EC,
      0x1D7F6, 0x1E140, 0x1E2F0, 0x1E950, 0x1FBF0]"

definition is_digit :: "nat \<Rightarrow> bool" where
  "is_digit c \<longleftrightarrow> list_ex (\<lambda>b. b \<le> c \<and> c < b + 10) digit_blocks"

definition digit_value :: "nat \<Rightarrow> nat" where
  "digit_value c =
     (case find (\<lambda>b. b \<le> c \<and> c < b + 10) digit_blocks of Some b \<Rightarrow> c - b | None \<Rightarrow> 0)"

definition lower_cp :: "nat \<Rightarrow> nat" where
  "lower_cp c =
     (if 65 \<le> c \<and> c \<le> 90 then c + 32
      else if 192 \<le> c \<and> c \<le> 222 \<and> c \<noteq> 215 then c + 32
      else if 1024 \<le> c \<and> c \<le> 1039 then c + 80
      else if 1040 \<le> c \<and> c \<le> 1071 then c + 32
      else c)"

text \<open>\<open>s.lower()\<close>\<close>

definition lower :: "ustr \<Rightarrow> ustr" where
  "lower s = map lower_cp s"

text \<open>\<open>s.strip()\<close>: white space is removed at both ends.\<close>

definition strip :: "ustr \<Rightarrow> ustr" where
  "strip s = rev (dropWhile is_space (rev (dropWhile is_space s)))"

text \<open>\<open>s.replace(a, b)\<close> for a single code point \<open>a\<close>.\<close>

definition replace_cp :: "nat \<Rightarrow> ustr \<Rightarrow> ustr \<Rightarrow> ustr" where
  "replace_cp a b s = concat (map (\<lambda>c. if c = a then b else [c]) s)"

text \<open>\<open>p in s\<close> for strings: \<open>p\<close> occurs in \<open>s\<close> as a contiguous run.\<close>

fun starts_with :: "ustr \<Rightarrow> ustr \<Rightarrow> bool" where
  "starts_with s [] = True"
| "starts_with [] (p # ps) = False"
| "starts_with (c # cs) (p # ps) = (c = p \<and> starts_with cs ps)"

fun str_in :: "ustr \<Rightarrow> ustr \<Rightarrow> bool" where
  "str_in p [] = (p = [])"
| "str_in p (c # cs) = (starts_with (c # cs) p \<or> str_in p cs)"

text \<open>\<open>any(k in t for k in ks)\<close>\<close>

definition any_in :: "ustr list \<Rightarrow> ustr \<Rightarrow> bool" where
  "any_in ks t = list_ex (\<lambda>k. str_in k t) ks"

section \<open>Text utilities (utils/text.py)\<close>

text \<open>\<open>_SPACE_RE.sub(" ", s)\<close> with \<open>_SPACE_RE = \s+\<close>: every maximal run of white
  space becomes one plain space.\<close>

function sub_spaces :: "ustr \<Rightarrow> ustr" where
  "sub_spaces [] = []"
| "sub_spaces (c # cs) =
     (if is_space c then 32 # sub_spaces (dropWhile is_space cs) else c # sub_spaces cs)"
  by pat_completeness auto
termination
  by (relation "measure length") (auto simp: length_dropWhile_le le_imp_less_Suc)

definition normalize_spaces :: "ustr \<Rightarrow> ustr" where
  "normalize_spaces s = strip (sub_spaces (replace_cp 160 [32] s))"

definition safe_lower :: "ustr \<Rightarrow> ustr" where
  "safe_lower s = lower (normalize_spaces s)"

section \<open>Table cells\<close>

text \<open>
  A cell of a pandas column holds an arbitrary Python object. The handlers tell a
  \<open>str\<close> from everything else (\<open>isinstance(val, str)\<close>) and write strings,
  booleans and floats. A float cell is \<open>Num x\<close> for a finite double of value \<open>x\<close>,
  \<open>PlusInf\<close> or \<open>MinusInf\<close> for an infinity, and \<open>NaN\<close>, the null of a float
  column.
\<close>

datatype cell = Str ustr | Num rat | Bool bool | NaN | PlusInf | MinusInf

text \<open>\<open>safe_lower\<close> applied to a cell: anything that is not a \<open>str\<close> gives the
  empty string.\<close>

definition safe_lower_obj :: "cell \<Rightarrow> ustr" where
  "safe_lower_obj v = (case v of Str s \<Rightarrow> safe_lower s | _ \<Rightarrow> [])"

section \<open>Python floats\<close>

text \<open>
  A Python \<open>float\<close> is an IEEE 754 double: NaN, an infinity, or a finite value
  \<open>m * 2 ^ e\<close>, written \<open>Finite m e\<close>. A double has \<open>\<bar>m\<bar> < 2 ^ 53\<close> and
  \<open>- 1074 \<le> e \<le> 971\<close>; the functions below are defined for every pair of integers,
  and every result of \<open>round_double\<close> is a double. The sign of a zero is not
  modelled: no test of the handlers tells \<open>-0.0\<close> from \<open>0.0\<close>.
\<close>

datatype pyfloat = Finite int int | PosInf | NegInf | NotANumber

text \<open>\<open>n.bit_length()\<close>\<close>

fun bit_length :: "nat \<Rightarrow> nat" where
  "bit_length n = (if n = 0 then 0 else Suc (bit_length (n div 2)))"

declare bit_length.simps [simp del]

text \<open>\<open>m / 2 ^ s\<close> rounded to the nearest integer, a tie going to the even one.\<close>

definition round_shift :: "int \<Rightarrow> nat \<Rightarrow> int" where
  "round_shift m s =
     (let f = m div 2 ^ s; r = m mod 2 ^ s; h = 2 ^ s div 2 in
      if r < h then f
      else if h < r then f + 1
      else if even f then f
      else f + 1)"

text \<open>
  The double nearest to \<open>m * 2 ^ e\<close> (round to nearest, ties to even), as every
  arithmetic operation on doubles and the conversion from \<open>int\<close> deliver it. With
  \<open>b\<close> the bit length of \<open>\<bar>m\<bar>\<close>, the value lies between \<open>2 ^ (b + e - 1)\<close> and
  \<open>2 ^ (b + e)\<close>, where doubles are \<open>2 ^ (b + e - 53)\<close> apart, and no less than
  \<open>2 ^ - 1074\<close> apart; a result of \<open>2 ^ 1024\<close> or more is an infinity.
\<close>

definition round_double :: "int \<Rightarrow> int \<Rightarrow> pyfloat" where
  "round_double m e =
     (if m = 0 then Finite 0 0
      else
        let t = max (int (bit_length (nat \<bar>m\<bar>)) + e - 53) (- 1074);
            q = (if t \<le> e then m else round_shift m (nat (t - e)));
            u = (if t \<le> e then e else t)
        in if 1024 < int (bit_length (nat \<bar>q\<bar>)) + u
           then (if 0 < m then PosInf else NegInf)
           else Finite q u)"

text \<open>\<open>x * y\<close> on floats: NaN if an operand is NaN or if an infinity meets a zero.\<close>

fun fsign :: "pyfloat \<Rightarrow> int" where
  "fsign (Finite m e) = sgn m"
| "fsign PosInf = 1"
| "fsign NegInf = - 1"
| "fsign NotANumber = 0"

fun fmul :: "pyfloat \<Rightarrow> pyfloat \<Rightarrow> pyfloat" where
  "fmul (Finite m e) (Finite n f) = round_double (m * n) (e + f)"
| "fmul x y =
     (if x = NotANumber \<or> y = NotANumber \<or> fsign x * fsign y = 0 then NotANumber
      else if 0 < fsign x * fsign y then PosInf
      else NegInf)"

text \<open>\<open>x / 2.0\<close>\<close>

fun fhalf :: "pyfloat \<Rightarrow> pyfloat" where
  "fhalf (Finite m e) = round_double m (e - 1)"
| "fhalf x = x"

text \<open>\<open>x <= 0\<close>: false for NaN.\<close>

fun fle_zero :: "pyfloat \<Rightarrow> bool" where
  "fle_zero (Finite m e) = (m \<le> 0)"
| "fle_zero NegInf = True"
| "fle_zero PosInf = False"
| "fle_zero NotANumber = False"

text \<open>The float as it is stored in a float column.\<close>

definition two_power :: "int \<Rightarrow> rat" where
  "two_power e = (if 0 \<le> e then 2 ^ nat e else 1 / 2 ^ nat (- e))"

fun cell_of_float :: "pyfloat \<Rightarrow> cell" where
  "cell_of_float (Finite m e) = Num (of_int m * two_power e)"
| "cell_of_float PosInf = PlusInf"
| "cell_of_float NegInf = MinusInf"
| "cell_of_float NotANumber = NaN"

text \<open>
  The exceptions that the handlers raise. \<open>float(n)\<close> for an \<open>int\<close>, and an
  \<open>int\<close> operand of a float division, is the nearest double, and raises
  \<open>OverflowError\<close> when that is not finite.
\<close>

datatype error = ValueError ustr | ProviderError ustr | OverflowError

definition float_of_int :: "int \<Rightarrow> error + pyfloat" where
  "float_of_int n =
     (case round_double n 0 of
        Finite m e \<Rightarrow> Inr (Finite m e)
      | _ \<Rightarrow> Inl OverflowError)"

section \<open>Salary parsing (handlers/parse_salary.py)\<close>

definition SALARY_COL :: ustr where
  "SALARY_COL = [0x417, 0x41F]"   \<comment> \<open>ZP\<close>

definition detect_currency :: "ustr \<Rightarrow> ustr option" where
  "detect_currency s =
     (let t = lower s in
      if str_in [0x440, 0x443, 0x431] t   \<comment> \<open>rub\<close>
         \<or> str_in (ascii ''rur'') t \<or> str_in (ascii ''rub'') t
         \<or> str_in [0x20BD] t   \<comment> \<open>U+20BD, the rouble sign\<close>
      then Some (ascii ''RUB'')
      else if str_in (ascii ''usd'') t \<or> str_in (ascii ''$'') t then Some (ascii ''USD'')
      else if str_in (ascii ''eur'') t \<or> str_in [0x20AC] t   \<comment> \<open>U+20AC, the euro sign\<close>
      then Some (ascii ''EUR'')
      else if str_in (ascii ''kzt'') t
         \<or> str_in [0x442, 0x435, 0x43D, 0x433, 0x435] t   \<comment> \<open>tenge\<close>
      then Some (ascii ''KZT'')
      else if str_in (ascii ''byn'') t \<or> str_in [0x431, 0x435, 0x43B] t   \<comment> \<open>bel\<close>
      then Some (ascii ''BYN'')
      else if str_in (ascii ''uah'') t \<or> str_in [0x433, 0x440, 0x43D] t   \<comment> \<open>grn\<close>
      then Some (ascii ''UAH'')
      else if str_in (ascii ''uzs'') t \<or> str_in [0x441, 0x443, 0x43C] t   \<comment> \<open>sum\<close>
      then Some (ascii ''UZS'')
      else if str_in (ascii ''gel'') t \<or> str_in [0x43B, 0x430, 0x440, 0x438] t   \<comment> \<open>lari\<close>
      then Some (ascii ''GEL'')
      else if str_in (ascii ''amd'') t \<or> str_in [0x434, 0x440, 0x430, 0x43C] t   \<comment> \<open>dram\<close>
      then Some (ascii ''AMD'')
      else if str_in (ascii ''azn'') t
         \<or> str_in [0x43C, 0x430, 0x43D, 0x430, 0x442] t   \<comment> \<open>manat\<close>
      then Some (ascii ''AZN'')
      else None)"

text \<open>\<open>_NUM_RE = (\d[\d\s\u00a0]*)\<close>: a match starts at a digit and takes, greedily,
  every following digit, white space and no-break space. \<open>finditer\<close> yields the
  matches from left to right, each search resuming where the last match ended.\<close>

definition num_char :: "nat \<Rightarrow> bool" where
  "num_char c \<longleftrightarrow> is_digit c \<or> is_space c \<or> c = 160"

function num_matches :: "ustr \<Rightarrow> ustr list" where
  "num_matches [] = []"
| "num_matches (c # cs) =
     (if is_digit c then (c # takeWhile num_char cs) # num_matches (dropWhile num_char cs)
      else num_matches cs)"
  by pat_completeness auto
termination
  by (relation "measure length") (auto simp: length_dropWhile_le le_imp_less_Suc)

text \<open>\<open>raw.isdigit()\<close> and \<open>int(raw)\<close>, as they act on what is left of a match
  of \<open>_NUM_RE\<close>: decimal digits and white space.\<close>

definition isdigit :: "ustr \<Rightarrow> bool" where
  "isdigit raw \<longleftrightarrow> raw \<noteq> [] \<and> list_all is_digit raw"

definition int_of_digits :: "ustr \<Rightarrow> int" where
  "int_of_digits raw = foldl (\<lambda>a c. 10 * a + int (digit_value c)) 0 raw"

text \<open>The loop of \<open>_extract_numbers\<close> over the matches.\<close>

fun collect_numbers :: "ustr list \<Rightarrow> int list" where
  "collect_numbers [] = []"
| "collect_numbers (m # ms) =
     (let raw = replace_cp 32 [] (replace_cp 160 [32] m) in
      if isdigit raw then int_of_digits raw # collect_numbers ms else collect_numbers ms)"

definition extract_numbers :: "ustr \<Rightarrow> int list" where
  "extract_numbers s = collect_numbers (num_matches s)"

text \<open>The body of the loop of \<open>ParseSalaryHandler._handle\<close> over the rows, in the
  order of the source. Line 117: the negotiable markers.\<close>

definition negotiable_marker :: "ustr \<Rightarrow> bool" where
  "negotiable_marker t \<longleftrightarrow>
     str_in [0x434, 0x43E, 0x433, 0x43E, 0x432, 0x43E, 0x440] t   \<comment> \<open>dogovor\<close>
     \<or> str_in [0x43F, 0x43E, 0x20, 0x434, 0x43E, 0x433, 0x43E, 0x432, 0x43E, 0x440] t
        \<comment> \<open>po dogovor\<close>
     \<or> str_in (ascii ''negotiable'') t"

text \<open>Lines 125 to 130: no number skips the row (\<open>None\<close>); otherwise
  \<open>amount = float(nums[0])\<close> and, when there are two or more numbers,
  \<open>amount = (nums[0] + nums[1]) / 2.0\<close>. Either conversion to float can raise.\<close>

definition resolve_amount :: "int list \<Rightarrow> error + pyfloat option" where
  "resolve_amount nums =
     (case nums of
        [] \<Rightarrow> Inr None
      | a # rest \<Rightarrow>
          (case float_of_int a of
             Inl err \<Rightarrow> Inl err
           | Inr amount \<Rightarrow>
               (case rest of
                  [] \<Rightarrow> Inr (Some amount)
                | b # _ \<Rightarrow>
                    (case float_of_int (a + b) of
                       Inl err \<Rightarrow> Inl err
                     | Inr added \<Rightarrow> Inr (Some (fhalf added))))))"

text \<open>Lines 132 and 133: the test that decides the multiplication by 1000, and
  \<open>amount *= 1000.0\<close>.\<close>

definition thousand_marker :: "ustr \<Rightarrow> bool" where
  "thousand_marker t \<longleftrightarrow> str_in [0x442, 0x44B, 0x441] t   \<comment> \<open>tys\<close> \<or> str_in (ascii ''k'') t"

definition scale_amount :: "ustr \<Rightarrow> pyfloat \<Rightarrow> pyfloat" where
  "scale_amount t amount = (if thousand_marker t then fmul amount (Finite 1000 0) else amount)"

text \<open>Lines 120 to 122: the detected currency, RUB when none is detected.\<close>

definition currency_or_rub :: "ustr \<Rightarrow> ustr" where
  "currency_or_rub s = (case detect_currency s of None \<Rightarrow> ascii ''RUB'' | Some c \<Rightarrow> c)"

text \<open>
  Lines 116 to 139, for a normalized non-empty text \<open>s\<close>: the detected currency and
  the converted amount \<open>rub = amount * float(rate)\<close>, as they stand before the test
  \<open>rub <= 0\<close>; \<open>None\<close> where the source has reached a \<open>continue\<close>, and the
  error where it has raised. The rates are floats (section 6 of the specification), so
  \<open>float(rate)\<close> is the rate itself.
\<close>

definition convert_salary ::
  "(ustr \<rightharpoonup> pyfloat) \<Rightarrow> ustr \<Rightarrow> error + (ustr \<times> pyfloat) option" where
  "convert_salary rates s =
     (let t = safe_lower s in
      if negotiable_marker t then Inr None
      else
        let cur = currency_or_rub s in
        case resolve_amount (extract_numbers s) of
          Inl err \<Rightarrow> Inl err
        | Inr None \<Rightarrow> Inr None
        | Inr (Some amount) \<Rightarrow>
            (case rates cur of
               None \<Rightarrow> Inr None
             | Some rate \<Rightarrow> Inr (Some (cur, fmul (scale_amount t amount) rate))))"

text \<open>
  One turn of the loop: the pair \<open>(target[i], curr_out[i])\<close> for the cell \<open>val\<close>,
  or the error raised. Both arrays start as \<open>NaN\<close> and the empty string, and a
  \<open>continue\<close> leaves them so.
\<close>

definition salary_row :: "(ustr \<rightharpoonup> pyfloat) \<Rightarrow> cell \<Rightarrow> error + cell \<times> cell" where
  "salary_row rates val =
     (case val of
        Str v \<Rightarrow>
          (let s = normalize_spaces v in
           if s = [] then Inr (NaN, Str [])
           else
             case convert_salary rates s of
               Inl err \<Rightarrow> Inl err
             | Inr None \<Rightarrow> Inr (NaN, Str [])
             | Inr (Some (cur, rub)) \<Rightarrow>
                 if fle_zero rub then Inr (NaN, Str [])
                 else Inr (cell_of_float rub, Str cur))
      | _ \<Rightarrow> Inr (NaN, Str []))"

text \<open>The loop over the rows, in order; the first turn that raises ends it.\<close>

fun salary_loop :: "(ustr \<rightharpoonup> pyfloat) \<Rightarrow> cell list \<Rightarrow> error + (cell \<times> cell) list" where
  "salary_loop rates [] = Inr []"
| "salary_loop rates (val # vals) =
     (case salary_row rates val of
        Inl err \<Rightarrow> Inl err
      | Inr p \<Rightarrow>
          (case salary_loop rates vals of
             Inl err \<Rightarrow> Inl err
           | Inr ps \<Rightarrow> Inr (p # ps)))"

section \<open>Job categories (handlers/job_category.py)\<close>

text \<open>
  \<open>categorize_job_title\<close> is a chain of tests on the lower-cased title, each
  returning a label. The label and the keywords of each test are named here, in the
  order of the source (the line numbers are those of \<open>job_category.py\<close>). A test
  written \<open>"a" in t or "b" in t\<close> and a test written
  \<open>any(k in t for k in ["a", "b"])\<close> compute the same boolean; both are
  \<open>any_in\<close> on the list of keywords.
\<close>

definition NOT_SPECIFIED :: ustr where
  "NOT_SPECIFIED = [0x41D, 0x435, 0x20, 0x443, 0x43A, 0x430, 0x437, 0x430, 0x43D, 0x43E]"   \<comment> \<open>Ne ukazano\<close>

definition OTHER :: ustr where
  "OTHER = [0x41F, 0x440, 0x43E, 0x447, 0x435, 0x435]"   \<comment> \<open>Prochee\<close>

text \<open>Lines 27 to 28.\<close>

definition lb_sysadmin :: ustr where
  "lb_sysadmin = [0x421, 0x438, 0x441, 0x442, 0x435, 0x43C, 0x43D, 0x44B, 0x439, 0x20, 0x430,
                  0x434, 0x43C, 0x438, 0x43D, 0x438, 0x441, 0x442, 0x440, 0x430, 0x442, 0x43E,
                  0x440]"   \<comment> \<open>Sistemnyj administrator\<close>

definition kw_sysadmin :: "ustr list" where
  "kw_sysadmin =
     [[0x441, 0x438, 0x441, 0x442, 0x435, 0x43C, 0x43D, 0x44B, 0x439, 0x20, 0x430, 0x434,
       0x43C, 0x438, 0x43D, 0x438, 0x441, 0x442, 0x440, 0x430, 0x442, 0x43E, 0x440],   \<comment> \<open>sistemnyj administrator\<close>
      ascii ''system administrator'',
      ascii ''sysadmin'']"

text \<open>Lines 29 to 30.\<close>

definition lb_devops :: ustr where
  "lb_devops = ascii ''DevOps/SRE''"

definition kw_devops :: "ustr list" where
  "kw_devops =
     [ascii ''devops'',
      ascii ''sre'',
      ascii ''site reliability'']"

text \<open>Lines 31 to 32.\<close>

definition lb_dba :: ustr where
  "lb_dba = [0x410, 0x434, 0x43C, 0x438, 0x43D, 0x438, 0x441, 0x442, 0x440, 0x430, 0x442,
             0x43E, 0x440, 0x20, 0x431, 0x430, 0x437, 0x20, 0x434, 0x430, 0x43D, 0x43D, 0x44B,
             0x445]"   \<comment> \<open>Administrator baz dannykh\<close>

definition kw_dba :: "ustr list" where
  "kw_dba =
     [ascii ''dba'',
      [0x430, 0x434, 0x43C, 0x438, 0x43D, 0x438, 0x441, 0x442, 0x440, 0x430, 0x442, 0x43E,
       0x440, 0x20, 0x431, 0x430, 0x437, 0x20, 0x434, 0x430, 0x43D, 0x43D, 0x44B, 0x445],   \<comment> \<open>administrator baz dannykh\<close>
      ascii ''database administrator'']"

text \<open>Lines 33 to 36.\<close>

definition lb_data_science :: ustr where
  "lb_data_science = ascii ''Data Scientist/ML''"

definition kw_data_science :: "ustr list" where
  "kw_data_science =
     [ascii ''data scientist'',
      ascii ''ds '',
      ascii ''ml engineer'',
      ascii ''machine learning'']"

text \<open>Lines 37 to 41.\<close>

definition lb_analyst :: ustr where
  "lb_analyst = [0x410, 0x43D, 0x430, 0x43B, 0x438, 0x442, 0x438, 0x43A]"   \<comment> \<open>Analitik\<close>

definition kw_analyst :: "ustr list" where
  "kw_analyst =
     [[0x430, 0x43D, 0x430, 0x43B, 0x438, 0x442, 0x438, 0x43A, 0x20, 0x434, 0x430, 0x43D,
       0x43D, 0x44B, 0x445],   \<comment> \<open>analitik dannykh\<close>
      ascii ''data analyst'',
      ascii ''bi analyst'',
      ascii ''business analyst'']"

text \<open>Lines 42 to 43.\<close>

definition lb_tester :: ustr where
  "lb_tester = [0x422, 0x435, 0x441, 0x442, 0x438, 0x440, 0x43E, 0x432, 0x449, 0x438, 0x43A]"   \<comment> \<open>Testirovshchik\<close>

definition kw_tester :: "ustr list" where
  "kw_tester =
     [[0x442, 0x435, 0x441, 0x442, 0x438, 0x440, 0x43E, 0x432, 0x449, 0x438, 0x43A],   \<comment> \<open>testirovshchik\<close>
      ascii ''qa'',
      ascii ''quality assurance'']"

text \<open>Lines 44 to 70.\<close>

definition lb_developer :: ustr where
  "lb_developer = [0x41F, 0x440, 0x43E, 0x433, 0x440, 0x430, 0x43C, 0x43C, 0x438, 0x441, 0x442,
                   0x2F, 0x420, 0x430, 0x437, 0x440, 0x430, 0x431, 0x43E, 0x442, 0x447, 0x438,
                   0x43A]"   \<comment> \<open>Programmist/Razrabotchik\<close>

definition kw_developer :: "ustr list" where
  "kw_developer =
     [[0x440, 0x430, 0x437, 0x440, 0x430, 0x431, 0x43E, 0x442, 0x447, 0x438, 0x43A],   \<comment> \<open>razrabotchik\<close>
      [0x43F, 0x440, 0x43E, 0x433, 0x440, 0x430, 0x43C, 0x43C, 0x438, 0x441, 0x442],   \<comment> \<open>programmist\<close>
      ascii ''developer'',
      ascii ''software engineer'',
      ascii ''backend'',
      ascii ''frontend'',
      ascii ''fullstack'',
      ascii ''ios'',
      ascii ''android'',
      ascii ''java'',
      ascii ''python'',
      ascii ''c++'',
      ascii ''golang'',
      ascii ''php'',
      ascii ''javascript'',
      ascii ''node.js'',
      ascii ''react'',
      ascii ''vue'',
      ascii ''1c'',
      [0x31, 0x441],   \<comment> \<open>1s\<close>
      ascii ''unity'']"

text \<open>Lines 71 to 72.\<close>

definition lb_it :: ustr where
  "lb_it = ascii ''IT-'' @ [0x441, 0x43F, 0x435, 0x446, 0x438, 0x430, 0x43B, 0x438, 0x441, 0x442]"   \<comment> \<open>IT-spetsialist\<close>

definition kw_it :: "ustr list" where
  "kw_it =
     [ascii ''it'',
      [0x430, 0x439, 0x442, 0x438]]"   \<comment> \<open>ajti\<close>

text \<open>Lines 74 to 86.\<close>

definition lb_product :: ustr where
  "lb_product = [0x41C, 0x435, 0x43D, 0x435, 0x434, 0x436, 0x435, 0x440, 0x20, 0x43F, 0x440,
                 0x43E, 0x435, 0x43A, 0x442, 0x43E, 0x432, 0x2F, 0x41F, 0x440, 0x43E, 0x434,
                 0x443, 0x43A, 0x442, 0x430]"   \<comment> \<open>Menedzher proektov/Produkta\<close>

definition kw_product :: "ustr list" where
  "kw_product =
     [ascii ''product manager'',
      ascii ''product owner'',
      [0x43F, 0x440, 0x43E, 0x434, 0x430, 0x43A, 0x442],   \<comment> \<open>prodakt\<close>
      ascii ''product'',
      [0x43F, 0x440, 0x43E, 0x435, 0x43A, 0x442, 0x43D, 0x44B, 0x439, 0x20, 0x43C, 0x435,
       0x43D, 0x435, 0x434, 0x436, 0x435, 0x440],   \<comment> \<open>proektnyj menedzher\<close>
      ascii ''project manager'',
      ascii ''pm '']"

text \<open>Lines 88 to 102.\<close>

definition lb_marketing :: ustr where
  "lb_marketing = [0x41C, 0x430, 0x440, 0x43A, 0x435, 0x442, 0x438, 0x43D,
                   0x433] @ ascii ''/PR/'' @ [0x41A, 0x43E, 0x43D, 0x442, 0x435, 0x43D, 0x442]"   \<comment> \<open>Marketing/PR/Kontent\<close>

definition kw_marketing :: "ustr list" where
  "kw_marketing =
     [[0x43C, 0x430, 0x440, 0x43A, 0x435, 0x442, 0x43E, 0x43B, 0x43E, 0x433],   \<comment> \<open>marketolog\<close>
      ascii ''marketing'',
      ascii ''smm'',
      [0x442, 0x430, 0x440, 0x433, 0x435, 0x442],   \<comment> \<open>target\<close>
      ascii ''seo'',
      [0x43A, 0x43E, 0x43D, 0x442, 0x435, 0x43D, 0x442],   \<comment> \<open>kontent\<close>
      ascii ''pr'',
      ascii ''copywriter'',
      [0x43A, 0x43E, 0x43F, 0x438, 0x440, 0x430, 0x439, 0x442, 0x435, 0x440]]"   \<comment> \<open>kopirajter\<close>

text \<open>Lines 103 to 115.\<close>

definition lb_sales :: ustr where
  "lb_sales = [0x41F, 0x440, 0x43E, 0x434, 0x430, 0x436, 0x438, 0x2F, 0x41A, 0x43B, 0x438,
               0x435, 0x43D, 0x442, 0x44B]"   \<comment> \<open>Prodazhi/Klienty\<close>

definition kw_sales :: "ustr list" where
  "kw_sales =
     [[0x43F, 0x440, 0x43E, 0x434, 0x430, 0x436],   \<comment> \<open>prodazh\<close>
      ascii ''sales'',
      ascii ''account manager'',
      [0x43C, 0x435, 0x43D, 0x435, 0x434, 0x436, 0x435, 0x440, 0x20, 0x43F, 0x43E, 0x20, 0x440,
       0x430, 0x431, 0x43E, 0x442, 0x435, 0x20, 0x441, 0x20, 0x43A, 0x43B, 0x438, 0x435, 0x43D,
       0x442, 0x430, 0x43C, 0x438],   \<comment> \<open>menedzher po rabote s klientami\<close>
      [0x43A, 0x43B, 0x438, 0x435, 0x43D, 0x442, 0x430, 0x43C, 0x438],   \<comment> \<open>klientami\<close>
      [0x442, 0x43E, 0x440, 0x433, 0x43E, 0x432, 0x44B, 0x439, 0x20, 0x43F, 0x440, 0x435,
       0x434, 0x441, 0x442, 0x430, 0x432, 0x438, 0x442, 0x435, 0x43B, 0x44C],   \<comment> \<open>torgovyj predstavitel\<close>
      [0x43A, 0x430, 0x441, 0x441, 0x438, 0x440]]"   \<comment> \<open>kassir\<close>

text \<open>Lines 117 to 128.\<close>

definition lb_finance :: ustr where
  "lb_finance = [0x424, 0x438, 0x43D, 0x430, 0x43D, 0x441, 0x44B, 0x2F, 0x411, 0x443, 0x445,
                 0x433, 0x430, 0x43B, 0x442, 0x435, 0x440, 0x438, 0x44F]"   \<comment> \<open>Finansy/Bukhgalteriya\<close>

definition kw_finance :: "ustr list" where
  "kw_finance =
     [[0x431, 0x443, 0x445, 0x433, 0x430, 0x43B, 0x442, 0x435, 0x440],   \<comment> \<open>bukhgalter\<close>
      ascii ''accountant'',
      [0x444, 0x438, 0x43D, 0x430, 0x43D, 0x441],   \<comment> \<open>finans\<close>
      [0x44D, 0x43A, 0x43E, 0x43D, 0x43E, 0x43C, 0x438, 0x441, 0x442],   \<comment> \<open>ekonomist\<close>
      [0x430, 0x443, 0x434, 0x438, 0x442, 0x43E, 0x440],   \<comment> \<open>auditor\<close>
      [0x444, 0x438, 0x43D, 0x430, 0x43D, 0x441, 0x43E, 0x432, 0x44B, 0x439]]"   \<comment> \<open>finansovyj\<close>

text \<open>Lines 130 to 133.\<close>

definition lb_hr :: ustr where
  "lb_hr = ascii ''HR/'' @ [0x420, 0x435, 0x43A, 0x440, 0x443, 0x442, 0x435, 0x440]"   \<comment> \<open>HR/Rekruter\<close>

definition kw_hr :: "ustr list" where
  "kw_hr =
     [ascii ''hr'',
      [0x440, 0x435, 0x43A, 0x440, 0x443, 0x442, 0x435, 0x440],   \<comment> \<open>rekruter\<close>
      [0x43F, 0x43E, 0x434, 0x431, 0x43E, 0x440, 0x20, 0x43F, 0x435, 0x440, 0x441, 0x43E,
       0x43D, 0x430, 0x43B, 0x430],   \<comment> \<open>podbor personala\<close>
      ascii ''recruiter'',
      ascii ''talent'']"

text \<open>Lines 135 to 136.\<close>

definition lb_legal :: ustr where
  "lb_legal = [0x42E, 0x440, 0x438, 0x441, 0x442]"   \<comment> \<open>Yurist\<close>

definition kw_legal :: "ustr list" where
  "kw_legal =
     [[0x44E, 0x440, 0x438, 0x441, 0x442],   \<comment> \<open>yurist\<close>
      ascii ''lawyer'',
      ascii ''legal'']"

text \<open>Lines 138 to 151.\<close>

definition lb_logistics :: ustr where
  "lb_logistics = [0x41B, 0x43E, 0x433, 0x438, 0x441, 0x442, 0x438, 0x43A, 0x430, 0x2F, 0x421,
                   0x43A, 0x43B, 0x430, 0x434, 0x2F, 0x422, 0x440, 0x430, 0x43D, 0x441, 0x43F,
                   0x43E, 0x440, 0x442]"   \<comment> \<open>Logistika/Sklad/Transport\<close>

definition kw_logistics :: "ustr list" where
  "kw_logistics =
     [[0x43B, 0x43E, 0x433, 0x438, 0x441, 0x442],   \<comment> \<open>logist\<close>
      ascii ''logistics'',
      [0x441, 0x43A, 0x43B, 0x430, 0x434],   \<comment> \<open>sklad\<close>
      ascii ''warehouse'',
      [0x43A, 0x443, 0x440, 0x44C, 0x435, 0x440],   \<comment> \<open>kurer\<close>
      [0x434, 0x43E, 0x441, 0x442, 0x430, 0x432, 0x43A, 0x430],   \<comment> \<open>dostavka\<close>
      [0x432, 0x43E, 0x434, 0x438, 0x442, 0x435, 0x43B, 0x44C],   \<comment> \<open>voditel\<close>
      ascii ''driver'']"

text \<open>Lines 153 to 168.\<close>

definition lb_design :: ustr where
  "lb_design = [0x414, 0x438, 0x437, 0x430, 0x439, 0x43D, 0x2F, 0x41A, 0x440, 0x435, 0x430,
                0x442, 0x438, 0x432]"   \<comment> \<open>Dizajn/Kreativ\<close>

definition kw_design :: "ustr list" where
  "kw_design =
     [[0x434, 0x438, 0x437, 0x430, 0x439, 0x43D, 0x435, 0x440],   \<comment> \<open>dizajner\<close>
      ascii ''designer'',
      ascii ''ux'',
      ascii ''ui'',
      ascii ''graphic'',
      [0x433, 0x440, 0x430, 0x444, 0x438, 0x447, 0x435, 0x441, 0x43A, 0x438, 0x439],   \<comment> \<open>graficheskij\<close>
      [0x438, 0x43B, 0x43B, 0x44E, 0x441, 0x442, 0x440, 0x430, 0x442, 0x43E, 0x440],   \<comment> \<open>illyustrator\<close>
      ascii ''illustrator'',
      ascii ''3d'',
      ascii ''2d'']"

text \<open>Lines 170 to 183.\<close>

definition lb_engineering :: ustr where
  "lb_engineering = [0x418, 0x43D, 0x436, 0x435, 0x43D, 0x435, 0x440, 0x438, 0x44F, 0x2F,
                     0x41F, 0x440, 0x43E, 0x438, 0x437, 0x432, 0x43E, 0x434, 0x441, 0x442,
                     0x432, 0x43E, 0x2F, 0x421, 0x442, 0x440, 0x43E, 0x438, 0x442, 0x435,
                     0x43B, 0x44C, 0x441, 0x442, 0x432, 0x43E]"   \<comment> \<open>Inzheneriya/Proizvodstvo/Stroitelstvo\<close>

definition kw_engineering :: "ustr list" where
  "kw_engineering =
     [[0x438, 0x43D, 0x436, 0x435, 0x43D, 0x435, 0x440],   \<comment> \<open>inzhener\<close>
      ascii ''engineer'',
      [0x442, 0x435, 0x445, 0x43D, 0x43E, 0x43B, 0x43E, 0x433],   \<comment> \<open>tekhnolog\<close>
      [0x44D, 0x43B, 0x435, 0x43A, 0x442, 0x440, 0x438, 0x43A],   \<comment> \<open>elektrik\<close>
      ascii ''mechanic'',
      [0x43C, 0x435, 0x445, 0x430, 0x43D, 0x438, 0x43A],   \<comment> \<open>mekhanik\<close>
      [0x441, 0x442, 0x440, 0x43E, 0x438, 0x442, 0x435, 0x43B],   \<comment> \<open>stroitel\<close>
      ascii ''construction'']"

text \<open>Lines 185 to 196.\<close>

definition lb_office :: ustr where
  "lb_office = [0x410, 0x434, 0x43C, 0x438, 0x43D, 0x438, 0x441, 0x442, 0x440, 0x430, 0x442,
                0x438, 0x432, 0x43D, 0x44B, 0x439, 0x20, 0x43F, 0x435, 0x440, 0x441, 0x43E,
                0x43D, 0x430, 0x43B]"   \<comment> \<open>Administrativnyj personal\<close>

definition kw_office :: "ustr list" where
  "kw_office =
     [[0x441, 0x435, 0x43A, 0x440, 0x435, 0x442, 0x430, 0x440, 0x44C],   \<comment> \<open>sekretar\<close>
      ascii ''assistant'',
      [0x430, 0x441, 0x441, 0x438, 0x441, 0x442, 0x435, 0x43D, 0x442],   \<comment> \<open>assistent\<close>
      [0x43E, 0x444, 0x438, 0x441, 0x2D, 0x43C, 0x435, 0x43D, 0x435, 0x434, 0x436, 0x435, 0x440],   \<comment> \<open>ofis-menedzher\<close>
      [0x430, 0x434, 0x43C, 0x438, 0x43D, 0x438, 0x441, 0x442, 0x440, 0x430, 0x442, 0x43E,
       0x440],   \<comment> \<open>administrator\<close>
      ascii ''reception'']"

text \<open>Lines 198 to 199.\<close>

definition lb_operator :: ustr where
  "lb_operator = [0x41E, 0x43F, 0x435, 0x440, 0x430, 0x442, 0x43E, 0x440]"   \<comment> \<open>Operator\<close>

definition kw_operator :: "ustr list" where
  "kw_operator =
     [[0x43E, 0x43F, 0x435, 0x440, 0x430, 0x442, 0x43E, 0x440],   \<comment> \<open>operator\<close>
      ascii ''operator'']"

text \<open>Lines 201 to 202.\<close>

definition lb_specialist :: ustr where
  "lb_specialist = [0x421, 0x43F, 0x435, 0x446, 0x438, 0x430, 0x43B, 0x438, 0x441, 0x442, 0x20,
                    0x28, 0x43E, 0x431, 0x449, 0x438, 0x439, 0x29]"   \<comment> \<open>Spetsialist (obshchij)\<close>

definition kw_specialist :: "ustr list" where
  "kw_specialist =
     [[0x441, 0x43F, 0x435, 0x446, 0x438, 0x430, 0x43B, 0x438, 0x441, 0x442],   \<comment> \<open>spetsialist\<close>
      ascii ''specialist'']"

definition categorize_job_title :: "cell \<Rightarrow> ustr" where
  "categorize_job_title title =
     (let t = safe_lower_obj title in
      if t = [] then NOT_SPECIFIED
      else if any_in kw_sysadmin t then lb_sysadmin
      else if any_in kw_devops t then lb_devops
      else if any_in kw_dba t then lb_dba
      else if any_in kw_data_science t then lb_data_science
      else if any_in kw_analyst t then lb_analyst
      else if any_in kw_tester t then lb_tester
      else if any_in kw_developer t then lb_developer
      else if any_in kw_it t then lb_it
      else if any_in kw_product t then lb_product
      else if any_in kw_marketing t then lb_marketing
      else if any_in kw_sales t then lb_sales
      else if any_in kw_finance t then lb_finance
      else if any_in kw_hr t then lb_hr
      else if any_in kw_legal t then lb_legal
      else if any_in kw_logistics t then lb_logistics
      else if any_in kw_design t then lb_design
      else if any_in kw_engineering t then lb_engineering
      else if any_in kw_office t then lb_office
      else if any_in kw_operator t then lb_operator
      else if any_in kw_specialist t then lb_specialist
      else OTHER)"

section \<open>Education (handlers/parse_education.py)\<close>

definition EDU_COL :: ustr where
  "EDU_COL = [0x41E, 0x431, 0x440, 0x430, 0x437, 0x43E, 0x432, 0x430, 0x43D, 0x438, 0x435, 0x20,
              0x438, 0x20, 0x412, 0x423, 0x417]"   \<comment> \<open>Obrazovanie i VUZ\<close>

definition parse_level :: "cell \<Rightarrow> ustr" where
  "parse_level val =
     (let t = safe_lower_obj val in
      if t = [] then NOT_SPECIFIED
      else if str_in [0x434, 0x43E, 0x43A, 0x442, 0x43E, 0x440] t   \<comment> \<open>doktor\<close>
      then [0x414, 0x43E, 0x43A, 0x442, 0x43E, 0x440, 0x20, 0x43D, 0x430, 0x443, 0x43A]   \<comment> \<open>Doktor nauk\<close>
      else if str_in [0x43A, 0x430, 0x43D, 0x434, 0x438, 0x434, 0x430, 0x442] t   \<comment> \<open>kandidat\<close>
      then [0x41A, 0x430, 0x43D, 0x434, 0x438, 0x434, 0x430, 0x442, 0x20, 0x43D, 0x430, 0x443,
            0x43A]   \<comment> \<open>Kandidat nauk\<close>
      else if str_in [0x43D, 0x435, 0x43E, 0x43A, 0x43E, 0x43D, 0x447, 0x435, 0x43D] t \<or> str_in (ascii ''incomplete higher'') t   \<comment> \<open>neokonchen\<close>
      then [0x41D, 0x435, 0x43E, 0x43A, 0x43E, 0x43D, 0x447, 0x435, 0x43D, 0x43D, 0x43E, 0x435,
            0x20, 0x432, 0x44B, 0x441, 0x448, 0x435, 0x435]
            \<comment> \<open>Neokonchennoe vysshee\<close>
      else if str_in [0x432, 0x44B, 0x441, 0x448, 0x435, 0x435] t   \<comment> \<open>vysshee\<close>
         \<or> str_in (ascii ''higher education'') t
         \<or> str_in (ascii ''bachelor'') t
         \<or> str_in (ascii ''master'') t
      then [0x412, 0x44B, 0x441, 0x448, 0x435, 0x435]   \<comment> \<open>Vysshee\<close>
      else if str_in [0x441, 0x440, 0x435, 0x434, 0x43D, 0x435, 0x435, 0x20, 0x441, 0x43F, 0x435,
                      0x446, 0x438, 0x430, 0x43B, 0x44C] t   \<comment> \<open>srednee spetsial\<close>
         \<or> str_in (ascii ''college'') t \<or> str_in (ascii ''vocational'') t
      then [0x421, 0x440, 0x435, 0x434, 0x43D, 0x435, 0x435, 0x20, 0x441, 0x43F, 0x435, 0x446,
            0x438, 0x430, 0x43B, 0x44C, 0x43D, 0x43E, 0x435]
            \<comment> \<open>Srednee spetsialnoe\<close>
      else if str_in [0x441, 0x440, 0x435, 0x434, 0x43D, 0x435, 0x435] t \<or> str_in (ascii ''secondary'') t   \<comment> \<open>srednee\<close>
      then [0x421, 0x440, 0x435, 0x434, 0x43D, 0x435, 0x435]   \<comment> \<open>Srednee\<close>
      else NOT_SPECIFIED)"

text \<open>\<open>_YEAR_RE = (19\d{2}|20\d{2})\<close>: \<open>year_at s\<close> holds when the pattern matches
  at the start of \<open>s\<close>, and \<open>year_search\<close> is \<open>_YEAR_RE.search\<close>, the leftmost
  match.\<close>

fun year_at :: "ustr \<Rightarrow> bool" where
  "year_at (a # b # c # d # _) =
     (((a = 49 \<and> b = 57) \<or> (a = 50 \<and> b = 48)) \<and> is_digit c \<and> is_digit d)"
| "year_at _ = False"

fun year_search :: "ustr \<Rightarrow> ustr option" where
  "year_search [] = None"
| "year_search (c # cs) =
     (if year_at (c # cs) then Some (take 4 (c # cs)) else year_search cs)"

definition parse_year :: "cell \<Rightarrow> cell" where
  "parse_year val =
     (let t = safe_lower_obj val in
      if t = [] then NaN
      else
        case year_search t of
          None \<Rightarrow> NaN
        | Some m \<Rightarrow>
            (let year = int_of_digits m in
             if 1950 \<le> year \<and> year \<le> 2035 then Num (of_int year) else NaN))"

section \<open>Location (handlers/parse_location.py)\<close>

definition CITY_COL :: ustr where
  "CITY_COL = [0x413, 0x43E, 0x440, 0x43E, 0x434]"   \<comment> \<open>Gorod\<close>

text \<open>\<open>t.split(",")[0]\<close> is the text before the first comma (code point 44).\<close>

definition parse_city :: "cell \<Rightarrow> ustr" where
  "parse_city s =
     (case s of
        Str v \<Rightarrow>
          (let t = normalize_spaces v in
           if t = [] then NOT_SPECIFIED
           else normalize_spaces (takeWhile (\<lambda>c. c \<noteq> 44) t))
      | _ \<Rightarrow> NOT_SPECIFIED)"

definition relocate_negative :: "ustr \<Rightarrow> bool" where
  "relocate_negative t \<longleftrightarrow>
     str_in [0x43D, 0x435, 0x20, 0x433, 0x43E, 0x442, 0x43E, 0x432, 0x20, 0x43A, 0x20, 0x43F,
             0x435, 0x440, 0x435, 0x435, 0x437, 0x434, 0x443] t   \<comment> \<open>ne gotov k pereezdu\<close>
     \<or> str_in (ascii ''not ready to relocate'') t
     \<or> str_in (ascii ''not willing to relocate'') t"

definition relocate_positive :: "ustr \<Rightarrow> bool" where
  "relocate_positive t \<longleftrightarrow>
     str_in [0x433, 0x43E, 0x442, 0x43E, 0x432, 0x20, 0x43A, 0x20, 0x43F, 0x435, 0x440, 0x435,
             0x435, 0x437, 0x434, 0x443] t   \<comment> \<open>gotov k pereezdu\<close>
     \<or> str_in (ascii ''ready to relocate'') t
     \<or> str_in (ascii ''willing to relocate'') t"

definition parse_relocate :: "cell \<Rightarrow> bool" where
  "parse_relocate s =
     (let t = safe_lower_obj s in
      if t = [] then False
      else if relocate_negative t then False
      else if relocate_positive t then True
      else False)"

definition trips_negative :: "ustr \<Rightarrow> bool" where
  "trips_negative t \<longleftrightarrow>
     str_in [0x43D, 0x435, 0x20, 0x433, 0x43E, 0x442, 0x43E, 0x432, 0x20, 0x43A, 0x20, 0x43A,
             0x43E, 0x43C, 0x430, 0x43D, 0x434, 0x438, 0x440, 0x43E, 0x432, 0x43A, 0x430, 0x43C] t   \<comment> \<open>ne gotov k komandirovkam\<close>
     \<or> str_in (ascii ''not ready for business trips'') t"

definition trips_positive :: "ustr \<Rightarrow> bool" where
  "trips_positive t \<longleftrightarrow>
     str_in [0x433, 0x43E, 0x442, 0x43E, 0x432, 0x20, 0x43A, 0x20, 0x43A, 0x43E, 0x43C, 0x430,
             0x43D, 0x434, 0x438, 0x440, 0x43E, 0x432, 0x43A, 0x430, 0x43C] t   \<comment> \<open>gotov k komandirovkam\<close>
     \<or> str_in [0x433, 0x43E, 0x442, 0x43E, 0x432, 0x20, 0x43A, 0x20, 0x440, 0x435, 0x434,
                   0x43A, 0x438, 0x43C, 0x20, 0x43A, 0x43E, 0x43C, 0x430, 0x43D, 0x434, 0x438,
                   0x440, 0x43E, 0x432, 0x43A, 0x430, 0x43C] t   \<comment> \<open>gotov k redkim komandirovkam\<close>
     \<or> str_in (ascii ''ready for business trips'') t
     \<or> str_in (ascii ''willing to travel'') t"

definition parse_trips :: "cell \<Rightarrow> bool" where
  "parse_trips s =
     (let t = safe_lower_obj s in
      if t = [] then False
      else if trips_negative t then False
      else if trips_positive t then True
      else False)"

section \<open>Tables and the pipeline context\<close>

text \<open>
  A pandas \<open>DataFrame\<close> is its row index (the row labels, in order) and its columns
  (label and data, in order). \<open>labels\<close> is \<open>df.columns\<close> and \<open>nrows\<close> is
  \<open>len(df)\<close>. Column labels are strings. In a well-formed table every column is as
  long as the index and the labels are distinct; what pandas does with a repeated label
  is outside the model.
\<close>

record dataframe =
  index :: "nat list"
  columns :: "(ustr \<times> cell list) list"

definition labels :: "dataframe \<Rightarrow> ustr list" where
  "labels d = map fst (columns d)"

definition nrows :: "dataframe \<Rightarrow> nat" where
  "nrows d = length (index d)"

definition rectangular :: "dataframe \<Rightarrow> bool" where
  "rectangular d \<longleftrightarrow> list_all (\<lambda>cx. length (snd cx) = nrows d) (columns d)"

definition well_formed :: "dataframe \<Rightarrow> bool" where
  "well_formed d \<longleftrightarrow> distinct (labels d) \<and> rectangular d"

text \<open>\<open>df[c]\<close>, read for a label that the handler has found among \<open>df.columns\<close>.\<close>

definition column :: "dataframe \<Rightarrow> ustr \<Rightarrow> cell list" where
  "column d c = (case map_of (columns d) c of Some xs \<Rightarrow> xs | None \<Rightarrow> [])"

text \<open>\<open>df[c] = xs\<close>: the data of column \<open>c\<close> is replaced where it stands, and a new
  label is added as the last column.\<close>

definition set_column :: "dataframe \<Rightarrow> ustr \<Rightarrow> cell list \<Rightarrow> dataframe" where
  "set_column d c xs =
     (if c \<in> set (labels d)
      then d\<lparr>columns := map (\<lambda>cx. if fst cx = c then (c, xs) else cx) (columns d)\<rparr>
      else d\<lparr>columns := columns d @ [(c, xs)]\<rparr>)"

text \<open>\<open>df[c] = v\<close> for a scalar \<open>v\<close>: the value is repeated for every row.\<close>

definition set_scalar :: "dataframe \<Rightarrow> ustr \<Rightarrow> cell \<Rightarrow> dataframe" where
  "set_scalar d c v = set_column d c (replicate (nrows d) v)"

text \<open>\<open>df.drop(columns=cs, errors="ignore")\<close>\<close>

definition drop_columns :: "dataframe \<Rightarrow> ustr list \<Rightarrow> dataframe" where
  "drop_columns d cs = d\<lparr>columns := filter (\<lambda>cx. fst cx \<notin> set cs) (columns d)\<rparr>"

text \<open>\<open>df.loc[mask, cs]\<close> keeps the rows where the boolean mask holds and the columns
  \<open>cs\<close>, in that order; \<open>df.head(n)\<close> keeps the first \<open>n\<close> rows.\<close>

definition select_rows :: "bool list \<Rightarrow> 'a list \<Rightarrow> 'a list" where
  "select_rows keep xs = map snd (filter fst (zip keep xs))"

definition loc :: "dataframe \<Rightarrow> bool list \<Rightarrow> ustr list \<Rightarrow> dataframe" where
  "loc d keep cs =
     \<lparr>index = select_rows keep (index d),
      columns = map (\<lambda>c. (c, select_rows keep (column d c))) cs\<rparr>"

definition head :: "nat \<Rightarrow> dataframe \<Rightarrow> dataframe" where
  "head n d =
     \<lparr>index = take n (index d), columns = map (\<lambda>cx. (fst cx, take n (snd cx))) (columns d)\<rparr>"

text \<open>
  \<open>PipelineContext\<close> (its class is not among the sources; the handlers use the three
  attributes below). A diagnostic value is a string, a count or a small table. A handler
  either returns the context or raises; \<open>Raise e ctx\<close> keeps the context as the handler
  left it at the \<open>raise\<close>. Log messages are not modelled.
\<close>

datatype diag_value = DStr ustr | DInt int | DFrame dataframe

record pipeline_context =
  df :: "dataframe option"
  output_dir :: ustr
  diag :: "ustr \<rightharpoonup> diag_value"

datatype outcome = Return pipeline_context | Raise error pipeline_context

definition not_loaded :: error where
  "not_loaded = ValueError (ascii ''DataFrame is not loaded'')"

section \<open>The handlers\<close>

subsection \<open>\<open>CleanColumnsHandler._handle\<close> (handlers/clean\_cols.py)\<close>

definition clean_columns_handle :: "pipeline_context \<Rightarrow> outcome" where
  "clean_columns_handle ctx =
     (case df ctx of
        None \<Rightarrow> Raise not_loaded ctx
      | Some d0 \<Rightarrow>
          (let d1 = d0\<lparr>columns := map (\<lambda>cx. (strip (fst cx), snd cx)) (columns d0)\<rparr>;
               drop_cols = filter (\<lambda>c. starts_with (lower c) (ascii ''unnamed'')) (labels d1);
               d2 = (if drop_cols \<noteq> [] then drop_columns d1 drop_cols else d1)
           in Return (ctx\<lparr>df := Some d2\<rparr>)))"

subsection \<open>\<open>JobCategoryHandler._handle\<close> (handlers/job\_category.py)\<close>

definition is_desired_col :: "ustr \<Rightarrow> bool" where
  "is_desired_col c \<longleftrightarrow> str_in [0x438, 0x449, 0x435, 0x442, 0x20, 0x440, 0x430,
                                                  0x431, 0x43E, 0x442, 0x443, 0x20, 0x43D, 0x430,
                                                  0x20, 0x434, 0x43E, 0x43B, 0x436, 0x43D, 0x43E,
                                                  0x441, 0x442, 0x44C] (lower c)"   \<comment> \<open>ishchet rabotu na dolzhnost\<close>

definition is_current_title_col :: "ustr \<Rightarrow> bool" where
  "is_current_title_col c \<longleftrightarrow>
     str_in [0x43D, 0x44B, 0x43D, 0x435, 0x448, 0x43D, 0x44F, 0x44F, 0x20, 0x434, 0x43E, 0x43B,
             0x436, 0x43D, 0x43E, 0x441, 0x442, 0x44C] (lower c)   \<comment> \<open>nyneshnyaya dolzhnost\<close>
     \<or> str_in [0x43D, 0x44B, 0x43D, 0x435, 0x448, 0x43D, 0x44F, 0x44F, 0x20, 0x434, 0x43E,
                   0x43B, 0x436, 0x43D, 0x43E, 0x441, 0x442] (lower c)"   \<comment> \<open>nyneshnyaya dolzhnost\<close>

definition is_employer_col :: "ustr \<Rightarrow> bool" where
  "is_employer_col c \<longleftrightarrow> str_in [0x43C, 0x435, 0x441, 0x442, 0x43E, 0x20, 0x440,
                                                   0x430, 0x431, 0x43E, 0x442, 0x44B] (lower c)"   \<comment> \<open>mesto raboty\<close>

text \<open>\<open>next((c for c in df.columns if P(c)), None)\<close> is \<open>find P (labels d)\<close>.\<close>

definition job_category_handle :: "pipeline_context \<Rightarrow> outcome" where
  "job_category_handle ctx =
     (case df ctx of
        None \<Rightarrow> Raise not_loaded ctx
      | Some d0 \<Rightarrow>
          (let desired_col = find is_desired_col (labels d0);
               current_title_col = find is_current_title_col (labels d0);
               d1 = (case desired_col of
                       None \<Rightarrow> set_scalar d0 (ascii ''job_category'') (Str NOT_SPECIFIED)
                     | Some c \<Rightarrow>
                         set_column d0 (ascii ''job_category'')
                           (map (\<lambda>v. Str (categorize_job_title v)) (column d0 c)));
               d2 = (case current_title_col of
                       None \<Rightarrow>
                         set_scalar d1 (ascii ''current_job_category'') (Str NOT_SPECIFIED)
                     | Some c \<Rightarrow>
                         set_column d1 (ascii ''current_job_category'')
                           (map (\<lambda>v. Str (categorize_job_title v)) (column d1 c)));
               drop_cols = (case desired_col of None \<Rightarrow> [] | Some c \<Rightarrow> [c])
                         @ (case current_title_col of None \<Rightarrow> [] | Some c \<Rightarrow> [c]);
               d3 = drop_columns d2 drop_cols;
               employer_col = find is_employer_col (labels d3);
               d4 = (case employer_col of None \<Rightarrow> d3 | Some c \<Rightarrow> drop_columns d3 [c])
           in Return (ctx\<lparr>df := Some d4\<rparr>)))"

subsection \<open>\<open>ParseEducationHandler._handle\<close> (handlers/parse\_education.py)\<close>

definition parse_education_handle :: "pipeline_context \<Rightarrow> outcome" where
  "parse_education_handle ctx =
     (case df ctx of
        None \<Rightarrow> Raise not_loaded ctx
      | Some d0 \<Rightarrow>
          if EDU_COL \<notin> set (labels d0)
          then
            (let d1 = set_scalar d0 (ascii ''education_level'') (Str NOT_SPECIFIED);
                 d2 = set_scalar d1 (ascii ''education_year'') NaN
             in Return (ctx\<lparr>df := Some d2\<rparr>))
          else
            (let d1 = set_column d0 (ascii ''education_level'')
                        (map (\<lambda>v. Str (parse_level v)) (column d0 EDU_COL));
                 d2 = set_column d1 (ascii ''education_year'')
                        (map parse_year (column d1 EDU_COL))
             in Return (ctx\<lparr>df := Some d2\<rparr>)))"

subsection \<open>\<open>ParseLocationHandler._handle\<close> (handlers/parse\_location.py)\<close>

definition parse_location_handle :: "pipeline_context \<Rightarrow> outcome" where
  "parse_location_handle ctx =
     (case df ctx of
        None \<Rightarrow> Raise not_loaded ctx
      | Some d0 \<Rightarrow>
          if CITY_COL \<notin> set (labels d0)
          then
            (let d1 = set_scalar d0 (ascii ''city'') (Str NOT_SPECIFIED);
                 d2 = set_scalar d1 (ascii ''relocate_ready'') (Bool False);
                 d3 = set_scalar d2 (ascii ''trips_ready'') (Bool False)
             in Return (ctx\<lparr>df := Some d3\<rparr>))
          else
            (let d1 = set_column d0 (ascii ''city'')
                        (map (\<lambda>v. Str (parse_city v)) (column d0 CITY_COL));
                 d2 = set_column d1 (ascii ''relocate_ready'')
                        (map (\<lambda>v. Bool (parse_relocate v)) (column d1 CITY_COL));
                 d3 = set_column d2 (ascii ''trips_ready'')
                        (map (\<lambda>v. Bool (parse_trips v)) (column d2 CITY_COL))
             in Return (ctx\<lparr>df := Some d3\<rparr>)))"

subsection \<open>\<open>ParseSalaryHandler._handle\<close> (handlers/parse\_salary.py)\<close>

text \<open>
  \<open>load_fx_rates\<close> (utils/currency.py) is not among the sources. The handler takes it
  as a parameter \<open>load\<close>: from the output directory it gives the rates (currency code
  to roubles per unit, a float) and the name of their source, or it raises. An error
  raised in the loop leaves the context with the entry \<open>fx_rates_source\<close>, written
  before the loop, and with the table it had.
\<close>

record fx_rates =
  rates :: "ustr \<rightharpoonup> pyfloat"
  source :: ustr

definition missing_salary_col :: error where
  "missing_salary_col =
     ValueError (ascii ''Required target column '' @ [39] @ SALARY_COL @ [39]
                 @ ascii '' not found'')"

definition put_diag :: "pipeline_context \<Rightarrow> ustr \<Rightarrow> diag_value \<Rightarrow> pipeline_context" where
  "put_diag ctx k v = ctx\<lparr>diag := (diag ctx)(k \<mapsto> v)\<rparr>"

definition parse_salary_handle ::
  "(ustr \<Rightarrow> error + fx_rates) \<Rightarrow> pipeline_context \<Rightarrow> outcome" where
  "parse_salary_handle load ctx =
     (case df ctx of
        None \<Rightarrow> Raise not_loaded ctx
      | Some d0 \<Rightarrow>
          if SALARY_COL \<notin> set (labels d0) then Raise missing_salary_col ctx
          else
            case load (output_dir ctx) of
              Inl e \<Rightarrow> Raise e ctx
            | Inr fx \<Rightarrow>
                (let ctx1 = put_diag ctx (ascii ''fx_rates_source'') (DStr (source fx));
                     raw_series = column d0 SALARY_COL
                 in case salary_loop (rates fx) raw_series of
                      Inl e \<Rightarrow> Raise e ctx1
                    | Inr out \<Rightarrow>
                        (let target = map fst out;
                             curr_out = map snd out;
                             d1 = set_column d0 (ascii ''salary_currency'') curr_out;
                             d2 = set_column d1 (ascii ''target_salary_rub'') target;
                             nan_mask = map (\<lambda>x. x = NaN) target;
                             ctx2 = put_diag ctx1 (ascii ''rows_with_nan_target'')
                                      (DInt (int (length (filter id nan_mask))));
                             ctx3 = (if list_ex id nan_mask
                                     then put_diag ctx2 (ascii ''nan_target_examples'')
                                            (DFrame (head 20
                                               (loc d2 nan_mask
                                                  [SALARY_COL, ascii ''salary_currency''])))
                                     else ctx2);
                             ctx4 = put_diag ctx3 (ascii ''target_zeros'')
                                      (DInt (int (length (filter (\<lambda>x. x = Num 0) target))))
                         in Return (ctx4\<lparr>df := Some d2\<rparr>))))"

section \<open>Definitions used to state the properties\<close>

text \<open>The tests of \<open>categorize_job_title\<close> as an ordered list of rules, each a label
  with its keywords, and the label of the first rule that has a keyword in the text.\<close>

definition job_rules :: "(ustr \<times> ustr list) list" where
  "job_rules =
     [(lb_sysadmin, kw_sysadmin), (lb_devops, kw_devops), (lb_dba, kw_dba),
      (lb_data_science, kw_data_science), (lb_analyst, kw_analyst), (lb_tester, kw_tester),
      (lb_developer, kw_developer), (lb_it, kw_it), (lb_product, kw_product),
      (lb_marketing, kw_marketing), (lb_sales, kw_sales), (lb_finance, kw_finance),
      (lb_hr, kw_hr), (lb_legal, kw_legal), (lb_logistics, kw_logistics),
      (lb_design, kw_design), (lb_engineering, kw_engineering), (lb_office, kw_office),
      (lb_operator, kw_operator), (lb_specialist, kw_specialist)]"

definition first_match :: "(ustr \<times> ustr list) list \<Rightarrow> ustr \<Rightarrow> ustr option" where
  "first_match rules t = map_option fst (find (\<lambda>r. any_in (snd r) t) rules)"

text \<open>
  What it means that a handler keeps the rows, for an input table \<open>d\<close>, an output
  table \<open>d'\<close> and the labels \<open>written\<close> that the handler assigns: the row index is
  the same list (the same rows in the same order), every column of \<open>d'\<close> has one entry
  per row, and every column of \<open>d'\<close> either has a written label or carries, unchanged,
  the data of a column of \<open>d\<close>.
\<close>

definition preserves_rows :: "ustr list \<Rightarrow> dataframe \<Rightarrow> dataframe \<Rightarrow> bool" where
  "preserves_rows written d d' \<longleftrightarrow>
     index d' = index d \<and> rectangular d'
     \<and> list_all (\<lambda>cx. fst cx \<in> set written \<or> snd cx \<in> set (map snd (columns d)))
          (columns d')"

text \<open>The diagnostic that an outcome holds under a key, and its table.\<close>

definition result_diag :: "outcome \<Rightarrow> ustr \<Rightarrow> diag_value option" where
  "result_diag r k = (case r of Return c \<Rightarrow> diag c k | Raise e c \<Rightarrow> None)"

definition result_df :: "outcome \<Rightarrow> dataframe option" where
  "result_df r = (case r of Return c \<Rightarrow> df c | Raise e c \<Rightarrow> None)"

text \<open>A cell whose converted amount is exactly zero when the loop reaches the test
  \<open>rub <= 0\<close>, which then rejects it.\<close>

definition zero_before_rejection :: "(ustr \<rightharpoonup> pyfloat) \<Rightarrow> cell \<Rightarrow> bool" where
  "zero_before_rejection rts val =
     (case val of
        Str v \<Rightarrow>
          (case convert_salary rts (normalize_spaces v) of
             Inr (Some (cur, rub)) \<Rightarrow> normalize_spaces v \<noteq> [] \<and> cell_of_float rub = Num 0
           | _ \<Rightarrow> False)
      | _ \<Rightarrow> False)"

text \<open>The currency codes that \<open>_detect_currency\<close> or the default can give.\<close>

definition currency_codes :: "ustr list" where
  "currency_codes =
     [ascii ''RUB'', ascii ''USD'', ascii ''EUR'', ascii ''KZT'', ascii ''BYN'', ascii ''UAH'',
      ascii ''UZS'', ascii ''GEL'', ascii ''AMD'', ascii ''AZN'']"

text \<open>Example inputs.\<close>

definition spb_not_ready :: ustr where
  "spb_not_ready = [0x421, 0x430, 0x43D, 0x43A, 0x442, 0x2D, 0x41F, 0x435, 0x442, 0x435, 0x440,
                    0x431, 0x443, 0x440, 0x433, 0x2C, 0x20, 0x43D, 0x435, 0x20, 0x433, 0x43E,
                    0x442, 0x43E, 0x432, 0x20, 0x43A, 0x20, 0x43F, 0x435, 0x440, 0x435, 0x435,
                    0x437, 0x434, 0x443]"   \<comment> \<open>Sankt-Peterburg, ne gotov k pereezdu\<close>

definition range_text :: ustr where
  "range_text = [0x43E, 0x442] @ ascii '' 80 000 '' @ [0x434, 0x43E] @ ascii '' 100 000 ''
                @ [0x440, 0x443, 0x431, 0x2E]"   \<comment> \<open>ot 80 000 do 100 000 rub.\<close>

definition negotiable_text :: ustr where
  "negotiable_text = [0x417, 0x2F, 0x41F, 0x20, 0x43F, 0x43E, 0x20, 0x434, 0x43E, 0x433, 0x43E,
                      0x432, 0x43E, 0x440, 0x451, 0x43D, 0x43D, 0x43E, 0x441, 0x442, 0x438, 0x2C,
                      0x20, 0x43E, 0x442] @ ascii '' 50 000 $''"   \<comment> \<open>Z/P po dogovoryonnosti, ot 50 000 $\<close>

definition example_df :: dataframe where
  "example_df =
     \<lparr>index = [0, 1, 2],
      columns =
        [(ascii ''Unnamed: 0'', [Num 0, Num 1, Num 2]),
         (SALARY_COL, [Str range_text, Str negotiable_text, Str (ascii ''0 usd'')])]\<rparr>"

text \<open>Example rates: 1.0 for RUB, 90.0 for USD and, for KZT, the double that Python
  reads for 0.2, which is \<open>3602879701896397 / 2 ^ 54\<close>.\<close>

definition example_rates :: fx_rates where
  "example_rates =
     \<lparr>rates =
        map_of
          [(ascii ''RUB'', Finite 1 0), (ascii ''USD'', Finite 90 0),
           (ascii ''KZT'', Finite 3602879701896397 (- 54))],
      source = ascii ''fallback''\<rparr>"

text \<open>Rates in which the rate of USD is NaN.\<close>

definition nan_rates :: fx_rates where
  "nan_rates = \<lparr>rates = map_of [(ascii ''USD'', NotANumber)], source = ascii ''fallback''\<rparr>"

definition example_load :: "ustr \<Rightarrow> error + fx_rates" where
  "example_load dir = Inr example_rates"

definition example_ctx :: pipeline_context where
  "example_ctx = \<lparr>df = Some example_df, output_dir = ascii ''out'', diag = Map.empty\<rparr>"


text \<open>A table with the single salary cell "100 usd", and a provider of \<open>nan_rates\<close>.\<close>

definition usd_df :: dataframe where
  "usd_df = \<lparr>index = [0], columns = [(SALARY_COL, [Str (ascii ''100 usd'')])]\<rparr>"

definition usd_ctx :: pipeline_context where
  "usd_ctx = \<lparr>df = Some usd_df, output_dir = ascii ''out'', diag = Map.empty\<rparr>"

definition nan_load :: "ustr \<Rightarrow> error + fx_rates" where
  "nan_load dir = Inr nan_rates"

section \<open>Properties\<close>

text \<open>The definitions that evaluate a string function on a concrete text.\<close>

text \<open>Below U+0660, the zero of the second block, the decimal digits are the ASCII
  digits.\<close>

lemma is_digit_low: "c < 1632 \<Longrightarrow> is_digit c \<longleftrightarrow> 48 \<le> c \<and> c \<le> 57"
  by (auto simp: is_digit_def digit_blocks_def)

lemma digit_value_low: "48 \<le> c \<Longrightarrow> c \<le> 57 \<Longrightarrow> digit_value c = c - 48"
  by (simp add: digit_value_def digit_blocks_def)

lemmas str_defs =
  ascii_def lower_def lower_cp_def strip_def replace_cp_def is_space_def is_digit_low
  digit_value_low normalize_spaces_def safe_lower_def safe_lower_obj_def any_in_def

subsection \<open>Location\<close>

lemma relocate_positive_Nil: "\<not> relocate_positive []"
  by (simp add: relocate_positive_def ascii_def)

lemma trips_positive_Nil: "\<not> trips_positive []"
  by (simp add: trips_positive_def ascii_def)

text \<open>
  Claim C7. \<open>parse_relocate\<close> and \<open>parse_trips\<close> test the negative phrases before
  the positive ones and give false when neither matches: the result is true exactly when
  no negative phrase and some positive phrase occurs in the lower-cased text. The text
  "Sankt-Peterburg, ne gotov k pereezdu" contains the positive phrase "gotov k pereezdu"
  and still gives false.
\<close>

theorem negative_phrases_first:
  "parse_relocate s
     = (\<not> relocate_negative (safe_lower_obj s) \<and> relocate_positive (safe_lower_obj s))
   \<and> parse_trips s
     = (\<not> trips_negative (safe_lower_obj s) \<and> trips_positive (safe_lower_obj s))
   \<and> relocate_positive (safe_lower_obj (Str spb_not_ready))
   \<and> parse_relocate (Str spb_not_ready) = False"
proof (intro conjI)
  show "parse_relocate s
     = (\<not> relocate_negative (safe_lower_obj s) \<and> relocate_positive (safe_lower_obj s))"
    using relocate_positive_Nil
    by (cases "safe_lower_obj s = []") (auto simp: parse_relocate_def Let_def)
  show "parse_trips s
     = (\<not> trips_negative (safe_lower_obj s) \<and> trips_positive (safe_lower_obj s))"
    using trips_positive_Nil
    by (cases "safe_lower_obj s = []") (auto simp: parse_trips_def Let_def)
  have t: "safe_lower_obj (Str spb_not_ready) = lower spb_not_ready"
    by (simp add: str_defs spb_not_ready_def)
  show "relocate_positive (safe_lower_obj (Str spb_not_ready))"
    unfolding t
    by (simp add: relocate_positive_def spb_not_ready_def lower_def lower_cp_def)
  have "relocate_negative (safe_lower_obj (Str spb_not_ready))"
    unfolding t
    by (simp add: relocate_negative_def spb_not_ready_def lower_def lower_cp_def)
  then show "parse_relocate (Str spb_not_ready) = False"
    by (simp add: parse_relocate_def)
qed

subsection \<open>Job categories\<close>

lemmas label_defs =
  lb_sysadmin_def lb_devops_def lb_dba_def lb_data_science_def lb_analyst_def lb_tester_def
  lb_developer_def lb_it_def lb_product_def lb_marketing_def lb_sales_def lb_finance_def
  lb_hr_def lb_legal_def lb_logistics_def lb_design_def lb_engineering_def lb_office_def
  lb_operator_def lb_specialist_def

lemmas keyword_defs =
  kw_sysadmin_def kw_devops_def kw_dba_def kw_data_science_def kw_analyst_def kw_tester_def
  kw_developer_def kw_it_def kw_product_def kw_marketing_def kw_sales_def kw_finance_def
  kw_hr_def kw_legal_def kw_logistics_def kw_design_def kw_engineering_def kw_office_def
  kw_operator_def kw_specialist_def

lemma find_first:
  "i < length xs \<Longrightarrow> P (xs ! i) \<Longrightarrow> \<forall>k<i. \<not> P (xs ! k) \<Longrightarrow> find P xs = Some (xs ! i)"
proof (induction xs arbitrary: i)
  case Nil
  then show ?case by simp
next
  case (Cons x xs)
  show ?case
  proof (cases i)
    case 0
    with Cons.prems show ?thesis by simp
  next
    case (Suc n)
    from Cons.prems Suc have "\<not> P x" by auto
    moreover have "find P xs = Some (xs ! n)"
      using Cons.prems Suc by (intro Cons.IH) auto
    ultimately show ?thesis using Suc by simp
  qed
qed

text \<open>The chain of tests of \<open>categorize_job_title\<close> is the first match over
  \<open>job_rules\<close>.\<close>

lemma categorize_as_rules:
  "categorize_job_title title =
     (if safe_lower_obj title = [] then NOT_SPECIFIED
      else case first_match job_rules (safe_lower_obj title) of
             Some l \<Rightarrow> l
           | None \<Rightarrow> OTHER)"
  by (simp add: categorize_job_title_def first_match_def job_rules_def Let_def)

lemma job_rules_length: "length job_rules = 20"
  by (simp add: job_rules_def)

lemma job_labels_distinct: "distinct (map fst job_rules)"
  by (simp add: job_rules_def label_defs ascii_def)

lemma job_keywords_nonempty: "r \<in> set job_rules \<Longrightarrow> \<not> any_in (snd r) []"
  by (auto simp: job_rules_def keyword_defs any_in_def ascii_def)

lemma categorize_first_rule:
  assumes "i < length job_rules"
    and "any_in (snd (job_rules ! i)) (safe_lower_obj title)"
    and "\<forall>k<i. \<not> any_in (snd (job_rules ! k)) (safe_lower_obj title)"
  shows "categorize_job_title title = fst (job_rules ! i)"
proof -
  have "safe_lower_obj title \<noteq> []"
    using assms(1,2) job_keywords_nonempty [of "job_rules ! i"] by auto
  moreover have "find (\<lambda>r. any_in (snd r) (safe_lower_obj title)) job_rules
      = Some (job_rules ! i)"
    using assms by (intro find_first) auto
  ultimately show ?thesis
    by (simp add: categorize_as_rules first_match_def)
qed

text \<open>
  Claim C8. \<open>categorize_job_title\<close> is first-match-wins over the ordered rules: when
  the lower-cased title has a keyword of rule \<open>i\<close> and a keyword of a later rule \<open>j\<close>,
  and of no rule before \<open>i\<close>, the label is that of rule \<open>i\<close> and not that of rule
  \<open>j\<close>.
\<close>

theorem first_match_wins:
  assumes "i < j" and "j < length job_rules"
    and "any_in (snd (job_rules ! i)) (safe_lower_obj title)"
    and "any_in (snd (job_rules ! j)) (safe_lower_obj title)"
    and "\<forall>k<i. \<not> any_in (snd (job_rules ! k)) (safe_lower_obj title)"
  shows "categorize_job_title title = fst (job_rules ! i)
       \<and> categorize_job_title title \<noteq> fst (job_rules ! j)"
proof -
  have eq: "categorize_job_title title = fst (job_rules ! i)"
    using assms by (intro categorize_first_rule) auto
  have "i < length (map fst job_rules)" and "j < length (map fst job_rules)" and "i \<noteq> j"
    using assms(1,2) by simp_all
  then have "map fst job_rules ! i \<noteq> map fst job_rules ! j"
    using job_labels_distinct nth_eq_iff_index_eq by blast
  then have "fst (job_rules ! i) \<noteq> fst (job_rules ! j)"
    using assms(1,2) by simp
  with eq show ?thesis by simp
qed

text \<open>A title with both "devops" and "developer" is labelled by the DevOps/SRE rule
  (the second rule), not by the developer rule (the seventh).\<close>

theorem first_match_wins_witness:
  "any_in kw_devops (safe_lower_obj (Str (ascii ''Senior DevOps Developer'')))
   \<and> any_in kw_developer (safe_lower_obj (Str (ascii ''Senior DevOps Developer'')))
   \<and> categorize_job_title (Str (ascii ''Senior DevOps Developer'')) = lb_devops
   \<and> categorize_job_title (Str (ascii ''Senior DevOps Developer'')) \<noteq> lb_developer"
proof -
  let ?title = "Str (ascii ''Senior DevOps Developer'')"
  have t: "safe_lower_obj ?title = ascii ''senior devops developer''"
    by (simp add: str_defs)
  have a: "any_in kw_devops (safe_lower_obj ?title)"
    unfolding t by (simp add: kw_devops_def any_in_def ascii_def)
  have b: "any_in kw_developer (safe_lower_obj ?title)"
    unfolding t by (simp add: kw_developer_def any_in_def ascii_def)
  have c: "\<not> any_in kw_sysadmin (safe_lower_obj ?title)"
    unfolding t by (simp add: kw_sysadmin_def any_in_def ascii_def)
  have res: "categorize_job_title ?title = fst (job_rules ! 1)
      \<and> categorize_job_title ?title \<noteq> fst (job_rules ! 6)"
    using a b c by (intro first_match_wins) (simp_all add: job_rules_def)
  have r1: "fst (job_rules ! 1) = lb_devops" and r6: "fst (job_rules ! 6) = lb_developer"
    by (simp_all add: job_rules_def)
  from res have "categorize_job_title ?title = lb_devops
      \<and> categorize_job_title ?title \<noteq> lb_developer"
    unfolding r1 r6 .
  with a b show ?thesis by blast
qed

text \<open>
  Claim C10. The IT rule tests the two letters "it" anywhere in the lower-cased title:
  when "it" occurs there and no rule before the IT rule has a keyword there, the label
  is \<open>lb_it\<close>.
\<close>

theorem it_rule_matches_substring:
  assumes "str_in (ascii ''it'') (safe_lower_obj title)"
    and "\<forall>r \<in> set (takeWhile (\<lambda>r. fst r \<noteq> lb_it) job_rules).
           \<not> any_in (snd r) (safe_lower_obj title)"
  shows "categorize_job_title title = lb_it"
proof -
  have tw: "takeWhile (\<lambda>r. fst r \<noteq> lb_it) job_rules = take 7 job_rules"
    by (simp add: job_rules_def label_defs ascii_def)
  have "categorize_job_title title = fst (job_rules ! 7)"
  proof (rule categorize_first_rule)
    show "7 < length job_rules" by (simp add: job_rules_length)
    show "any_in (snd (job_rules ! 7)) (safe_lower_obj title)"
      using assms(1) by (simp add: job_rules_def kw_it_def any_in_def)
    show "\<forall>k<7. \<not> any_in (snd (job_rules ! k)) (safe_lower_obj title)"
    proof (intro allI impI)
      fix k :: nat
      assume "k < 7"
      then have "take 7 job_rules ! k \<in> set (take 7 job_rules)"
        by (intro nth_mem) (simp add: job_rules_length)
      with \<open>k < 7\<close> have "job_rules ! k \<in> set (take 7 job_rules)"
        by simp
      with assms(2) tw show "\<not> any_in (snd (job_rules ! k)) (safe_lower_obj title)"
        by simp
    qed
  qed
  then show ?thesis by (simp add: job_rules_def)
qed

text \<open>"recruiter" contains "it", so it is labelled IT specialist although the later
  HR rule has the keyword "recruiter".\<close>

theorem it_rule_matches_substring_witness:
  "str_in (ascii ''it'') (safe_lower_obj (Str (ascii ''recruiter'')))
   \<and> any_in kw_hr (safe_lower_obj (Str (ascii ''recruiter'')))
   \<and> categorize_job_title (Str (ascii ''recruiter'')) = lb_it
   \<and> lb_it \<noteq> lb_hr"
proof -
  let ?title = "Str (ascii ''recruiter'')"
  have t: "safe_lower_obj ?title = ascii ''recruiter''"
    by (simp add: str_defs)
  have a: "str_in (ascii ''it'') (safe_lower_obj ?title)"
    unfolding t by (simp add: ascii_def)
  have b: "any_in kw_hr (safe_lower_obj ?title)"
    unfolding t by (simp add: kw_hr_def any_in_def ascii_def)
  have tw: "takeWhile (\<lambda>r. fst r \<noteq> lb_it) job_rules = take 7 job_rules"
    by (simp add: job_rules_def label_defs ascii_def)
  have c: "\<forall>r \<in> set (takeWhile (\<lambda>r. fst r \<noteq> lb_it) job_rules).
           \<not> any_in (snd r) (safe_lower_obj ?title)"
    unfolding tw t by (simp add: job_rules_def keyword_defs any_in_def ascii_def)
  have "categorize_job_title ?title = lb_it"
    using a c by (rule it_rule_matches_substring)
  moreover have "lb_it \<noteq> lb_hr"
    by (simp add: lb_it_def lb_hr_def ascii_def)
  ultimately show ?thesis using a b by simp
qed

subsection \<open>Substrings and white space\<close>

lemma starts_with_iff: "starts_with s p \<longleftrightarrow> (\<exists>b. s = p @ b)"
  by (induction s p rule: starts_with.induct) auto

lemma str_in_iff: "str_in p s \<longleftrightarrow> (\<exists>a b. s = a @ p @ b)"
proof (induction s)
  case Nil
  then show ?case by auto
next
  case (Cons c cs)
  show ?case
  proof
    assume "str_in p (c # cs)"
    then consider "starts_with (c # cs) p" | "str_in p cs" by auto
    then show "\<exists>a b. c # cs = a @ p @ b"
    proof cases
      case 1
      then obtain b where "c # cs = p @ b" by (auto simp: starts_with_iff)
      then have "c # cs = [] @ p @ b" by simp
      then show ?thesis by blast
    next
      case 2
      then obtain a b where "cs = a @ p @ b" using Cons.IH by auto
      then have "c # cs = (c # a) @ p @ b" by simp
      then show ?thesis by blast
    qed
  next
    assume "\<exists>a b. c # cs = a @ p @ b"
    then obtain a b where ab: "c # cs = a @ p @ b" by auto
    show "str_in p (c # cs)"
    proof (cases a)
      case Nil
      with ab have "starts_with (c # cs) p" by (auto simp: starts_with_iff)
      then show ?thesis by simp
    next
      case (Cons x a')
      with ab have "cs = a' @ p @ b" by simp
      then have "str_in p cs" using Cons.IH by auto
      then show ?thesis by simp
    qed
  qed
qed

lemma str_in_map: "str_in p s \<Longrightarrow> str_in (map f p) (map f s)"
  by (auto simp: str_in_iff) (metis map_append)

lemma str_in_trans: "str_in p q \<Longrightarrow> str_in q s \<Longrightarrow> str_in p s"
proof -
  assume "str_in p q" and "str_in q s"
  then obtain a b a' b' where "q = a @ p @ b" and "s = a' @ q @ b'"
    by (auto simp: str_in_iff)
  then have "s = (a' @ a) @ p @ (b @ b')" by simp
  then show "str_in p s" unfolding str_in_iff by blast
qed

text \<open>A word without white space: a non-empty string in which no code point is white
  space (the no-break space 160 is white space).\<close>

lemma dropWhile_space_word:
  assumes "p \<noteq> []" and "\<forall>c \<in> set p. \<not> is_space c"
  shows "dropWhile is_space (a @ p @ b) = dropWhile is_space a @ p @ b"
proof -
  from assms obtain c p' where p: "p = c # p'" and "\<not> is_space c"
    by (cases p) auto
  then have "dropWhile is_space (p @ b) = p @ b" by simp
  then show ?thesis by (simp add: dropWhile_append)
qed

lemma sub_spaces_word_prefix:
  assumes "\<forall>c \<in> set p. \<not> is_space c"
  shows "sub_spaces (p @ b) = p @ sub_spaces b"
  using assms by (induction p) auto

lemma sub_spaces_word:
  assumes "p \<noteq> []" and "\<forall>c \<in> set p. \<not> is_space c"
  shows "\<exists>a'. sub_spaces (a @ p @ b) = a' @ p @ sub_spaces b"
proof (induction a rule: length_induct)
  case (1 a)
  show ?case
  proof (cases a)
    case Nil
    then show ?thesis using assms sub_spaces_word_prefix [of p b] by auto
  next
    case (Cons c cs)
    show ?thesis
    proof (cases "is_space c")
      case True
      have "length (dropWhile is_space cs) < length a"
        using Cons by (simp add: length_dropWhile_le le_imp_less_Suc)
      then obtain a' where
        "sub_spaces (dropWhile is_space cs @ p @ b) = a' @ p @ sub_spaces b"
        using 1 by blast
      then have "sub_spaces (a @ p @ b) = (32 # a') @ p @ sub_spaces b"
        using Cons True dropWhile_space_word [OF assms, of cs b] by simp
      then show ?thesis by blast
    next
      case False
      have "length cs < length a" using Cons by simp
      then obtain a' where "sub_spaces (cs @ p @ b) = a' @ p @ sub_spaces b"
        using 1 by blast
      then have "sub_spaces (a @ p @ b) = (c # a') @ p @ sub_spaces b"
        using Cons False by simp
      then show ?thesis by blast
    qed
  qed
qed

lemma strip_word:
  assumes "p \<noteq> []" and "\<forall>c \<in> set p. \<not> is_space c"
  shows "\<exists>a' b'. strip (a @ p @ b) = a' @ p @ b'"
proof -
  have rp: "rev p \<noteq> []" "\<forall>c \<in> set (rev p). \<not> is_space c"
    using assms by auto
  have "strip (a @ p @ b)
      = rev (dropWhile is_space (rev b @ rev p @ rev (dropWhile is_space a)))"
    by (simp add: strip_def dropWhile_space_word [OF assms])
  also have "\<dots> = dropWhile is_space a @ p @ rev (dropWhile is_space (rev b))"
    by (simp add: dropWhile_space_word [OF rp])
  finally show ?thesis by blast
qed

lemma replace_nbsp_word:
  assumes "\<forall>c \<in> set p. \<not> is_space c"
  shows "replace_cp 160 [32] (a @ p @ b)
       = replace_cp 160 [32] a @ p @ replace_cp 160 [32] b"
proof -
  have "replace_cp 160 [32] p = p"
    using assms by (induction p) (auto simp: replace_cp_def is_space_def)
  then show ?thesis by (simp add: replace_cp_def)
qed

lemma normalize_spaces_word:
  assumes "p \<noteq> []" and "\<forall>c \<in> set p. \<not> is_space c" and "str_in p s"
  shows "str_in p (normalize_spaces s)"
proof -
  from assms(3) obtain a b where "s = a @ p @ b" by (auto simp: str_in_iff)
  then have "replace_cp 160 [32] s = replace_cp 160 [32] a @ p @ replace_cp 160 [32] b"
    using replace_nbsp_word [OF assms(2)] by simp
  then obtain a1 b1 where "sub_spaces (replace_cp 160 [32] s) = a1 @ p @ b1"
    using sub_spaces_word [OF assms(1,2)] by metis
  then obtain a2 b2 where "normalize_spaces s = a2 @ p @ b2"
    using strip_word [OF assms(1,2)] by (metis normalize_spaces_def)
  then show ?thesis unfolding str_in_iff by blast
qed

lemma lower_cp_space: "is_space c \<Longrightarrow> is_space (lower_cp c)"
  by (auto simp: lower_cp_def is_space_def)

text \<open>A word \<open>w\<close> without white space that occurs in the lower-cased raw text still
  occurs in the lower-cased normalized text.\<close>

lemma safe_lower_word:
  assumes "w \<noteq> []" and "\<forall>c \<in> set w. \<not> is_space c" and "str_in w (lower v)"
  shows "str_in w (safe_lower v)"
proof -
  from assms(3) obtain a b where "map lower_cp v = a @ w @ b"
    by (auto simp: str_in_iff lower_def)
  then obtain u a0 b0 where v: "v = a0 @ u @ b0" and u: "map lower_cp u = w"
    by (metis map_eq_append_conv)
  have "u \<noteq> []" using u assms(1) by auto
  moreover have "\<forall>c \<in> set u. \<not> is_space c"
  proof
    fix c assume "c \<in> set u"
    then have "lower_cp c \<in> set w" using u by auto
    then show "\<not> is_space c" using assms(2) lower_cp_space by blast
  qed
  moreover have "str_in u v" using v unfolding str_in_iff by blast
  ultimately have "str_in u (normalize_spaces v)" by (rule normalize_spaces_word)
  then have "str_in (lower u) (lower (normalize_spaces v))"
    unfolding lower_def by (rule str_in_map)
  then show ?thesis using u by (simp add: lower_def safe_lower_def)
qed

subsection \<open>Tables\<close>

lemma map_of_replace:
  "map_of (map (\<lambda>cx. if fst cx = c then (c, xs) else cx) cols) c' =
     (if c' = c \<and> c \<in> set (map fst cols) then Some xs else map_of cols c')"
  by (induction cols) force+

lemma map_fst_replace:
  "map fst (map (\<lambda>cx. if fst cx = c then (c, xs) else cx) cols) = map fst cols"
  by (induction cols) auto

lemma labels_set_column:
  "labels (set_column d c xs) = (if c \<in> set (labels d) then labels d else labels d @ [c])"
  by (simp add: set_column_def labels_def map_fst_replace)

lemma index_set_column [simp]: "index (set_column d c xs) = index d"
  by (simp add: set_column_def)

lemma nrows_set_column [simp]: "nrows (set_column d c xs) = nrows d"
  by (simp add: nrows_def)

lemma index_drop_columns [simp]: "index (drop_columns d cs) = index d"
  by (simp add: drop_columns_def)

lemma nrows_drop_columns [simp]: "nrows (drop_columns d cs) = nrows d"
  by (simp add: nrows_def)

lemma set_labels_set_column [simp]:
  "set (labels (set_column d c xs)) = insert c (set (labels d))"
  by (auto simp: labels_set_column)

lemma column_set_column_same [simp]: "column (set_column d c xs) c = xs"
proof (cases "c \<in> set (labels d)")
  case True
  then show ?thesis
    by (simp add: column_def set_column_def map_of_replace labels_def)
next
  case False
  then have "map_of (columns d) c = None"
    by (simp add: labels_def map_of_eq_None_iff)
  with False show ?thesis
    by (simp add: column_def set_column_def map_add_def)
qed

lemma column_set_column_other [simp]:
  assumes "c' \<noteq> c"
  shows "column (set_column d c xs) c' = column d c'"
proof (cases "c \<in> set (labels d)")
  case True
  with assms show ?thesis
    by (simp add: column_def set_column_def map_of_replace)
next
  case False
  with assms show ?thesis
    by (simp add: column_def set_column_def map_add_def split: option.splits)
qed

lemma length_column:
  assumes "rectangular d" and "c \<in> set (labels d)"
  shows "length (column d c) = nrows d"
proof -
  have "map_of (columns d) c \<noteq> None"
    using assms(2) by (simp add: map_of_eq_None_iff labels_def)
  then obtain xs where xs: "map_of (columns d) c = Some xs" by auto
  then have "(c, xs) \<in> set (columns d)" by (rule map_of_SomeD)
  then have "length xs = nrows d"
    using assms(1) by (auto simp: rectangular_def list_all_iff)
  with xs show ?thesis by (simp add: column_def)
qed

lemma find_in_labels: "find P xs = Some c \<Longrightarrow> c \<in> set xs"
  by (auto simp: find_Some_iff)

lemma preserves_rows_refl: "rectangular d \<Longrightarrow> preserves_rows w d d"
  by (auto simp: preserves_rows_def list_all_iff)

lemma preserves_rows_set_column:
  assumes "preserves_rows w d d1" and "length xs = nrows d" and "c \<in> set w"
  shows "preserves_rows w d (set_column d1 c xs)"
proof -
  have n: "nrows d1 = nrows d"
    using assms(1) by (simp add: preserves_rows_def nrows_def)
  show ?thesis
    using assms n
    by (auto simp: preserves_rows_def rectangular_def set_column_def list_all_iff nrows_def)
qed

lemma preserves_rows_set_scalar:
  assumes "preserves_rows w d d1" and "c \<in> set w"
  shows "preserves_rows w d (set_scalar d1 c v)"
proof -
  have "nrows d1 = nrows d"
    using assms(1) by (simp add: preserves_rows_def nrows_def)
  then show ?thesis
    unfolding set_scalar_def using assms by (intro preserves_rows_set_column) auto
qed

lemma preserves_rows_drop_columns:
  assumes "preserves_rows w d d1"
  shows "preserves_rows w d (drop_columns d1 cs)"
  using assms
  by (auto simp: preserves_rows_def rectangular_def drop_columns_def list_all_iff nrows_def)

lemma preserves_rows_column:
  assumes "preserves_rows w d d1" and "c \<in> set (labels d1)"
  shows "length (column d1 c) = nrows d"
proof -
  have "length (column d1 c) = nrows d1"
    using assms by (intro length_column) (auto simp: preserves_rows_def)
  then show ?thesis using assms(1) by (simp add: preserves_rows_def nrows_def)
qed

subsection \<open>Floats\<close>

lemmas float_defs =
  round_shift_def round_double_def float_of_int_def two_power_def bit_length.simps





subsection \<open>The salary handler\<close>

lemmas salary_defs =
  detect_currency_def negotiable_marker_def resolve_amount_def thousand_marker_def
  scale_amount_def currency_or_rub_def convert_salary_def salary_row_def num_char_def
  isdigit_def int_of_digits_def extract_numbers_def Let_def

lemma salary_labels_differ:
  "ascii ''salary_currency'' \<noteq> ascii ''target_salary_rub''"
  "SALARY_COL \<noteq> ascii ''salary_currency''"
  "SALARY_COL \<noteq> ascii ''target_salary_rub''"
  by (simp_all add: ascii_def SALARY_COL_def)

lemma negotiable_marker_word:
  assumes "negotiable_marker (lower v)"
  shows "negotiable_marker (safe_lower v)"
proof -
  let ?dogovor = "[0x434, 0x43E, 0x433, 0x43E, 0x432, 0x43E, 0x440] :: ustr"
  let ?po = "[0x43F, 0x43E, 0x20, 0x434, 0x43E, 0x433, 0x43E, 0x432, 0x43E, 0x440] :: ustr"
  have "str_in ?dogovor ?po" by simp
  then have "str_in ?po (lower v) \<Longrightarrow> str_in ?dogovor (lower v)"
    by (rule str_in_trans)
  with assms consider "str_in ?dogovor (lower v)" | "str_in (ascii ''negotiable'') (lower v)"
    unfolding negotiable_marker_def by blast
  then show ?thesis
  proof cases
    case 1
    then have "str_in ?dogovor (safe_lower v)"
      by (intro safe_lower_word) (simp_all add: is_space_def)
    then show ?thesis by (simp add: negotiable_marker_def)
  next
    case 2
    then have "str_in (ascii ''negotiable'') (safe_lower v)"
      by (intro safe_lower_word) (simp_all add: is_space_def ascii_def)
    then show ?thesis by (simp add: negotiable_marker_def)
  qed
qed

lemma salary_row_negotiable:
  assumes "negotiable_marker (lower v)"
  shows "salary_row rts (Str v) = Inr (NaN, Str [])"
proof -
  have "negotiable_marker (lower (normalize_spaces v))"
    using negotiable_marker_word [OF assms] by (simp add: safe_lower_def)
  then have "negotiable_marker (safe_lower (normalize_spaces v))"
    by (rule negotiable_marker_word)
  then show ?thesis
    by (simp add: salary_row_def convert_salary_def Let_def)
qed

text \<open>When the loop ends without an error it has made one turn for every cell, in
  order.\<close>

lemma salary_loop_Inr:
  "salary_loop rts vals = Inr out \<Longrightarrow>
     length out = length vals \<and> (\<forall>i<length vals. salary_row rts (vals ! i) = Inr (out ! i))"
proof (induction vals arbitrary: out)
  case Nil
  then show ?case by simp
next
  case (Cons val vals)
  from Cons.prems obtain p ps where p: "salary_row rts val = Inr p"
    and ps: "salary_loop rts vals = Inr ps" and out: "out = p # ps"
    by (auto split: sum.splits)
  from Cons.IH [OF ps] have "length ps = length vals"
    and "\<forall>i<length vals. salary_row rts (vals ! i) = Inr (ps ! i)" by simp_all
  with p out show ?case by (auto simp: nth_Cons split: nat.splits)
qed

text \<open>What the handler returns, read off its definition.\<close>

lemma parse_salary_handle_Return:
  assumes "parse_salary_handle load ctx = Return ctx'" and "df ctx = Some d"
  shows "\<exists>fx out. load (output_dir ctx) = Inr fx \<and> SALARY_COL \<in> set (labels d)
     \<and> salary_loop (rates fx) (column d SALARY_COL) = Inr out
     \<and> df ctx' = Some
          (set_column (set_column d (ascii ''salary_currency'') (map snd out))
             (ascii ''target_salary_rub'') (map fst out))"
  using assms
  by (auto simp: parse_salary_handle_def Let_def put_diag_def split: if_splits sum.splits)

lemma salary_columns:
  assumes "parse_salary_handle load ctx = Return ctx'" and "df ctx = Some d"
  shows "\<exists>fx out d'. load (output_dir ctx) = Inr fx \<and> SALARY_COL \<in> set (labels d)
     \<and> salary_loop (rates fx) (column d SALARY_COL) = Inr out
     \<and> df ctx' = Some d' \<and> index d' = index d
     \<and> column d' (ascii ''target_salary_rub'') = map fst out
     \<and> column d' (ascii ''salary_currency'') = map snd out
     \<and> column d' SALARY_COL = column d SALARY_COL"
proof -
  from parse_salary_handle_Return [OF assms] obtain fx :: fx_rates and out where
    fx: "load (output_dir ctx) = Inr fx" "SALARY_COL \<in> set (labels d)"
      "salary_loop (rates fx) (column d SALARY_COL) = Inr out"
    and d': "df ctx' = Some
          (set_column (set_column d (ascii ''salary_currency'') (map snd out))
             (ascii ''target_salary_rub'') (map fst out))"
    by blast
  show ?thesis
    using fx d' salary_labels_differ by (intro exI [of _ fx] exI [of _ out]) simp
qed

lemma salary_handle_returns:
  assumes "df ctx = Some d" and "SALARY_COL \<in> set (labels d)"
    and "load (output_dir ctx) = Inr fx"
    and "salary_loop (rates fx) (column d SALARY_COL) = Inr out"
  shows "\<exists>ctx'. parse_salary_handle load ctx = Return ctx'"
  using assms by (simp add: parse_salary_handle_def Let_def)

lemma example_salary_column:
  "column example_df SALARY_COL = [Str range_text, Str negotiable_text, Str (ascii ''0 usd'')]"
  by (simp add: column_def example_df_def SALARY_COL_def ascii_def)

lemma example_rows:
  "salary_row (rates example_rates) (Str range_text) = Inr (Num 90000, Str (ascii ''RUB''))"
  "salary_row (rates example_rates) (Str negotiable_text) = Inr (NaN, Str [])"
  "salary_row (rates example_rates) (Str (ascii ''0 usd'')) = Inr (NaN, Str [])"
  by (simp_all add: example_rates_def range_text_def negotiable_text_def salary_defs str_defs
      float_defs)

lemma example_loop:
  "salary_loop (rates example_rates) (column example_df SALARY_COL)
     = Inr [(Num 90000, Str (ascii ''RUB'')), (NaN, Str []), (NaN, Str [])]"
  by (simp add: example_salary_column example_rows)

lemma example_returns: "\<exists>ctx'. parse_salary_handle example_load example_ctx = Return ctx'"
  by (rule salary_handle_returns [of _ example_df _ example_rates, OF _ _ _ example_loop])
     (simp_all add: example_ctx_def example_df_def example_load_def labels_def)

text \<open>
  Claim C2. A row whose raw salary text, lower-cased, contains a negotiable marker has a
  null \<open>target_salary_rub\<close> and an empty \<open>salary_currency\<close> in the table that the
  handler returns, whatever else the text holds.
\<close>

theorem negotiable_rows_left_null:
  assumes "parse_salary_handle load ctx = Return ctx'" and "df ctx = Some d"
    and "i < length (column d SALARY_COL)"
    and "column d SALARY_COL ! i = Str v"
    and "negotiable_marker (lower v)"
  shows "\<exists>d'. df ctx' = Some d'
       \<and> column d' (ascii ''target_salary_rub'') ! i = NaN
       \<and> column d' (ascii ''salary_currency'') ! i = Str []"
proof -
  from salary_columns [OF assms(1,2)] obtain fx :: fx_rates and out and d' where
    l: "salary_loop (rates fx) (column d SALARY_COL) = Inr out"
    and d': "df ctx' = Some d'"
    and t: "column d' (ascii ''target_salary_rub'') = map fst out"
    and c: "column d' (ascii ''salary_currency'') = map snd out"
    by auto
  from salary_loop_Inr [OF l] assms(3) have len: "i < length out"
    and "salary_row (rates fx) (column d SALARY_COL ! i) = Inr (out ! i)" by simp_all
  then have "out ! i = (NaN, Str [])"
    using assms(4,5) by (simp add: salary_row_negotiable)
  then show ?thesis using d' t c len by simp
qed

text \<open>The second row of the example table has the marker, a number and a dollar
  sign.\<close>

theorem negotiable_rows_left_null_witness:
  "negotiable_marker (lower negotiable_text)
   \<and> extract_numbers negotiable_text = [50000]
   \<and> detect_currency negotiable_text = Some (ascii ''USD'')
   \<and> (\<exists>d'. result_df (parse_salary_handle example_load example_ctx) = Some d'
        \<and> column d' (ascii ''target_salary_rub'') ! 1 = NaN
        \<and> column d' (ascii ''salary_currency'') ! 1 = Str [])"
proof -
  have m: "negotiable_marker (lower negotiable_text)"
    by (simp add: negotiable_marker_def negotiable_text_def lower_def lower_cp_def ascii_def)
  have n: "extract_numbers negotiable_text = [50000]"
    by (simp add: negotiable_text_def salary_defs str_defs)
  have cur: "detect_currency negotiable_text = Some (ascii ''USD'')"
    by (simp add: negotiable_text_def detect_currency_def Let_def lower_def lower_cp_def
        ascii_def)
  from example_returns obtain ctx' where
    r: "parse_salary_handle example_load example_ctx = Return ctx'" by blast
  have "\<exists>d'. df ctx' = Some d'
       \<and> column d' (ascii ''target_salary_rub'') ! 1 = NaN
       \<and> column d' (ascii ''salary_currency'') ! 1 = Str []"
    using r m
    by (intro negotiable_rows_left_null [of example_load example_ctx ctx' example_df 1
          negotiable_text])
       (simp_all add: example_ctx_def example_salary_column)
  then show ?thesis using m n cur r by (simp add: result_df_def)
qed







text \<open>
  Claim C4, evaluated. The amount is multiplied by 1000 when the letter "k" occurs
  anywhere in the lower-cased text: "60k USD" is scaled, and so is "100000 KZT", where
  the only "k" is that of the currency code that \<open>_detect_currency\<close> reads.
\<close>

theorem thousand_marker_on_currency_code:
  "salary_row (rates example_rates) (Str (ascii ''60k USD''))
     = Inr (Num 5400000, Str (ascii ''USD''))
   \<and> thousand_marker (safe_lower (ascii ''100000 KZT''))
   \<and> detect_currency (ascii ''100000 KZT'') = Some (ascii ''KZT'')
   \<and> extract_numbers (ascii ''100000 KZT'') = [100000]
   \<and> salary_row (rates example_rates) (Str (ascii ''100000 KZT''))
       = Inr (Num 20000000, Str (ascii ''KZT''))"
  by (simp add: example_rates_def salary_defs str_defs float_defs)

text \<open>
  Claim C5. The salary handler raises, with the context as it received it, when the
  context holds no table and when the table has no column \<open>SALARY_COL\<close>: no column is
  added, no diagnostic is recorded and the rates are not consulted.
\<close>

theorem salary_precondition_failure:
  "(df ctx = None \<longrightarrow> parse_salary_handle load ctx = Raise not_loaded ctx)
   \<and> (df ctx = Some d \<and> SALARY_COL \<notin> set (labels d) \<longrightarrow>
        parse_salary_handle load ctx = Raise missing_salary_col ctx)"
  by (simp add: parse_salary_handle_def)

theorem salary_precondition_failure_witness:
  "parse_salary_handle example_load (example_ctx\<lparr>df := None\<rparr>)
     = Raise not_loaded (example_ctx\<lparr>df := None\<rparr>)
   \<and> labels (drop_columns example_df [SALARY_COL]) = [ascii ''Unnamed: 0'']
   \<and> parse_salary_handle example_load
         (example_ctx\<lparr>df := Some (drop_columns example_df [SALARY_COL])\<rparr>)
     = Raise missing_salary_col
         (example_ctx\<lparr>df := Some (drop_columns example_df [SALARY_COL])\<rparr>)"
proof -
  have l: "labels (drop_columns example_df [SALARY_COL]) = [ascii ''Unnamed: 0'']"
    by (simp add: labels_def drop_columns_def example_df_def SALARY_COL_def ascii_def)
  then have "SALARY_COL \<notin> set (labels (drop_columns example_df [SALARY_COL]))"
    by (simp add: SALARY_COL_def ascii_def)
  then show ?thesis
    using l
      salary_precondition_failure
        [where ctx = "example_ctx\<lparr>df := None\<rparr>" and load = example_load]
      salary_precondition_failure
        [where ctx = "example_ctx\<lparr>df := Some (drop_columns example_df [SALARY_COL])\<rparr>"
           and d = "drop_columns example_df [SALARY_COL]" and load = example_load]
    by simp
qed

text \<open>
  Claim C9, evaluated. With a rate that is NaN the product \<open>rub\<close> is NaN, the test
  \<open>rub <= 0\<close> is false, and lines 143 and 144 write the null target together with the
  detected currency: the row of "100 usd" has a null \<open>target_salary_rub\<close> and the
  \<open>salary_currency\<close> USD.
\<close>

theorem null_target_keeps_currency:
  "convert_salary (rates nan_rates) (ascii ''100 usd'')
     = Inr (Some (ascii ''USD'', NotANumber))
   \<and> \<not> fle_zero NotANumber
   \<and> salary_row (rates nan_rates) (Str (ascii ''100 usd'')) = Inr (NaN, Str (ascii ''USD''))
   \<and> result_df (parse_salary_handle nan_load usd_ctx)
       = Some \<lparr>index = [0],
               columns =
                 [(SALARY_COL, [Str (ascii ''100 usd'')]),
                  (ascii ''salary_currency'', [Str (ascii ''USD'')]),
                  (ascii ''target_salary_rub'', [NaN])]\<rparr>"
proof -
  have c: "convert_salary (rates nan_rates) (ascii ''100 usd'')
      = Inr (Some (ascii ''USD'', NotANumber))"
    by (simp add: nan_rates_def salary_defs str_defs float_defs)
  have r: "salary_row (rates nan_rates) (Str (ascii ''100 usd''))
      = Inr (NaN, Str (ascii ''USD''))"
    by (simp add: nan_rates_def salary_defs str_defs float_defs)
  have col: "column usd_df SALARY_COL = [Str (ascii ''100 usd'')]"
    by (simp add: column_def usd_df_def)
  have l: "SALARY_COL \<in> set (labels usd_df)"
    by (simp add: labels_def usd_df_def)
  have "result_df (parse_salary_handle nan_load usd_ctx)
      = Some (set_column
          (set_column usd_df (ascii ''salary_currency'') [Str (ascii ''USD'')])
          (ascii ''target_salary_rub'') [NaN])"
    using l by (simp add: parse_salary_handle_def result_df_def usd_ctx_def nan_load_def
        Let_def put_diag_def col r)
  also have "\<dots> = Some \<lparr>index = [0],
               columns =
                 [(SALARY_COL, [Str (ascii ''100 usd'')]),
                  (ascii ''salary_currency'', [Str (ascii ''USD'')]),
                  (ascii ''target_salary_rub'', [NaN])]\<rparr>"
    using salary_labels_differ
    by (simp add: set_column_def labels_def usd_df_def)
  finally show ?thesis using c r by simp
qed

subsection \<open>Rows are kept by every handler\<close>

lemma set_labels_set_scalar [simp]:
  "set (labels (set_scalar d c v)) = insert c (set (labels d))"
  by (simp add: set_scalar_def)

lemma clean_preserves:
  assumes "df ctx = Some d" and "rectangular d"
  shows "\<exists>ctx' d'. clean_columns_handle ctx = Return ctx' \<and> df ctx' = Some d'
       \<and> preserves_rows [] d d'"
proof -
  define d1 where "d1 = d\<lparr>columns := map (\<lambda>cx. (strip (fst cx), snd cx)) (columns d)\<rparr>"
  have p1: "preserves_rows [] d d1"
    using assms(2)
    by (auto simp: d1_def preserves_rows_def rectangular_def nrows_def list_all_iff)
  define drop_cols where
    "drop_cols = filter (\<lambda>c. starts_with (lower c) (ascii ''unnamed'')) (labels d1)"
  define d2 where "d2 = (if drop_cols \<noteq> [] then drop_columns d1 drop_cols else d1)"
  have "preserves_rows [] d d2"
    using p1 by (simp add: d2_def preserves_rows_drop_columns)
  moreover have "clean_columns_handle ctx = Return (ctx\<lparr>df := Some d2\<rparr>)"
    using assms(1) by (simp add: clean_columns_handle_def Let_def d2_def drop_cols_def d1_def)
  ultimately show ?thesis by simp
qed

lemma job_preserves:
  assumes "df ctx = Some d" and "rectangular d"
  shows "\<exists>ctx' d'. job_category_handle ctx = Return ctx' \<and> df ctx' = Some d'
       \<and> preserves_rows [ascii ''job_category'', ascii ''current_job_category''] d d'"
proof -
  let ?w = "[ascii ''job_category'', ascii ''current_job_category'']"
  define desired_col where "desired_col = find is_desired_col (labels d)"
  define current_title_col where "current_title_col = find is_current_title_col (labels d)"
  define d1 where
    "d1 = (case desired_col of
             None \<Rightarrow> set_scalar d (ascii ''job_category'') (Str NOT_SPECIFIED)
           | Some c \<Rightarrow>
               set_column d (ascii ''job_category'')
                 (map (\<lambda>v. Str (categorize_job_title v)) (column d c)))"
  have p0: "preserves_rows ?w d d" using assms(2) by (rule preserves_rows_refl)
  have p1: "preserves_rows ?w d d1"
  proof (cases desired_col)
    case None
    then show ?thesis using p0 by (simp add: d1_def preserves_rows_set_scalar)
  next
    case (Some c)
    then have "c \<in> set (labels d)"
      unfolding desired_col_def by (rule find_in_labels)
    then have "length (map (\<lambda>v. Str (categorize_job_title v)) (column d c)) = nrows d"
      using assms(2) by (simp add: length_column)
    then show ?thesis using Some p0 by (simp add: d1_def preserves_rows_set_column)
  qed
  have l1: "set (labels d) \<subseteq> set (labels d1)"
    by (auto simp: d1_def split: option.splits)
  define d2 where
    "d2 = (case current_title_col of
             None \<Rightarrow> set_scalar d1 (ascii ''current_job_category'') (Str NOT_SPECIFIED)
           | Some c \<Rightarrow>
               set_column d1 (ascii ''current_job_category'')
                 (map (\<lambda>v. Str (categorize_job_title v)) (column d1 c)))"
  have p2: "preserves_rows ?w d d2"
  proof (cases current_title_col)
    case None
    then show ?thesis using p1 by (simp add: d2_def preserves_rows_set_scalar)
  next
    case (Some c)
    then have "c \<in> set (labels d)"
      unfolding current_title_col_def by (rule find_in_labels)
    then have "c \<in> set (labels d1)" using l1 by auto
    then have "length (map (\<lambda>v. Str (categorize_job_title v)) (column d1 c)) = nrows d"
      using p1 by (simp add: preserves_rows_column)
    then show ?thesis using Some p1 by (simp add: d2_def preserves_rows_set_column)
  qed
  define drop_cols where
    "drop_cols = (case desired_col of None \<Rightarrow> [] | Some c \<Rightarrow> [c])
               @ (case current_title_col of None \<Rightarrow> [] | Some c \<Rightarrow> [c])"
  define d3 where "d3 = drop_columns d2 drop_cols"
  have p3: "preserves_rows ?w d d3"
    using p2 by (simp add: d3_def preserves_rows_drop_columns)
  define d4 where
    "d4 = (case find is_employer_col (labels d3) of
             None \<Rightarrow> d3
           | Some c \<Rightarrow> drop_columns d3 [c])"
  have "preserves_rows ?w d d4"
    using p3 by (simp add: d4_def preserves_rows_drop_columns split: option.splits)
  moreover have "job_category_handle ctx = Return (ctx\<lparr>df := Some d4\<rparr>)"
    unfolding job_category_handle_def d4_def d3_def drop_cols_def d2_def d1_def
      desired_col_def current_title_col_def Let_def
    by (simp only: assms(1) option.case)
  ultimately show ?thesis by simp
qed

lemma education_preserves:
  assumes "df ctx = Some d" and "rectangular d"
  shows "\<exists>ctx' d'. parse_education_handle ctx = Return ctx' \<and> df ctx' = Some d'
       \<and> preserves_rows [ascii ''education_level'', ascii ''education_year''] d d'"
proof -
  let ?w = "[ascii ''education_level'', ascii ''education_year'']"
  have p0: "preserves_rows ?w d d" using assms(2) by (rule preserves_rows_refl)
  show ?thesis
  proof (cases "EDU_COL \<in> set (labels d)")
    case False
    have "preserves_rows ?w d
        (set_scalar (set_scalar d (ascii ''education_level'') (Str NOT_SPECIFIED))
           (ascii ''education_year'') NaN)"
      using p0 by (intro preserves_rows_set_scalar) simp_all
    then show ?thesis
      using False assms(1) by (simp add: parse_education_handle_def Let_def)
  next
    case True
    define d1 where
      "d1 = set_column d (ascii ''education_level'')
              (map (\<lambda>v. Str (parse_level v)) (column d EDU_COL))"
    have p1: "preserves_rows ?w d d1"
      unfolding d1_def using p0 True assms(2)
      by (intro preserves_rows_set_column) (simp_all add: length_column)
    have "EDU_COL \<in> set (labels d1)" using True by (simp add: d1_def)
    then have "preserves_rows ?w d
        (set_column d1 (ascii ''education_year'') (map parse_year (column d1 EDU_COL)))"
      using p1 by (intro preserves_rows_set_column) (simp_all add: preserves_rows_column)
    then show ?thesis
      using True assms(1) by (simp add: parse_education_handle_def Let_def d1_def)
  qed
qed

lemma location_preserves:
  assumes "df ctx = Some d" and "rectangular d"
  shows "\<exists>ctx' d'. parse_location_handle ctx = Return ctx' \<and> df ctx' = Some d'
       \<and> preserves_rows [ascii ''city'', ascii ''relocate_ready'', ascii ''trips_ready''] d d'"
proof -
  let ?w = "[ascii ''city'', ascii ''relocate_ready'', ascii ''trips_ready'']"
  have p0: "preserves_rows ?w d d" using assms(2) by (rule preserves_rows_refl)
  show ?thesis
  proof (cases "CITY_COL \<in> set (labels d)")
    case False
    have "preserves_rows ?w d
        (set_scalar
           (set_scalar (set_scalar d (ascii ''city'') (Str NOT_SPECIFIED))
              (ascii ''relocate_ready'') (Bool False))
           (ascii ''trips_ready'') (Bool False))"
      using p0 by (intro preserves_rows_set_scalar) simp_all
    then show ?thesis
      using False assms(1) by (simp add: parse_location_handle_def Let_def)
  next
    case True
    define d1 where
      "d1 = set_column d (ascii ''city'') (map (\<lambda>v. Str (parse_city v)) (column d CITY_COL))"
    have p1: "preserves_rows ?w d d1"
      unfolding d1_def using p0 True assms(2)
      by (intro preserves_rows_set_column) (simp_all add: length_column)
    have c1: "CITY_COL \<in> set (labels d1)" using True by (simp add: d1_def)
    define d2 where
      "d2 = set_column d1 (ascii ''relocate_ready'')
              (map (\<lambda>v. Bool (parse_relocate v)) (column d1 CITY_COL))"
    have p2: "preserves_rows ?w d d2"
      unfolding d2_def using p1 c1
      by (intro preserves_rows_set_column) (simp_all add: preserves_rows_column)
    have c2: "CITY_COL \<in> set (labels d2)" using c1 by (simp add: d2_def)
    have "preserves_rows ?w d
        (set_column d2 (ascii ''trips_ready'')
           (map (\<lambda>v. Bool (parse_trips v)) (column d2 CITY_COL)))"
      using p2 c2 by (intro preserves_rows_set_column) (simp_all add: preserves_rows_column)
    then show ?thesis
      using True assms(1) by (simp add: parse_location_handle_def Let_def d1_def d2_def)
  qed
qed

lemma salary_preserves:
  assumes "parse_salary_handle load ctx = Return ctx'" and "df ctx = Some d"
    and "rectangular d"
  shows "\<exists>d'. df ctx' = Some d'
       \<and> preserves_rows [ascii ''salary_currency'', ascii ''target_salary_rub''] d d'"
proof -
  let ?w = "[ascii ''salary_currency'', ascii ''target_salary_rub'']"
  from parse_salary_handle_Return [OF assms(1,2)] obtain fx :: fx_rates and out where
    s: "SALARY_COL \<in> set (labels d)"
    and l: "salary_loop (rates fx) (column d SALARY_COL) = Inr out"
    and d': "df ctx' = Some
          (set_column (set_column d (ascii ''salary_currency'') (map snd out))
             (ascii ''target_salary_rub'') (map fst out))"
    by auto
  have "length out = length (column d SALARY_COL)"
    using salary_loop_Inr [OF l] by simp
  then have len: "length out = nrows d"
    using s assms(3) by (simp add: length_column)
  have p0: "preserves_rows ?w d d" using assms(3) by (rule preserves_rows_refl)
  have "preserves_rows ?w d
          (set_column (set_column d (ascii ''salary_currency'') (map snd out))
             (ascii ''target_salary_rub'') (map fst out))"
    using p0 len by (intro preserves_rows_set_column) simp_all
  with d' show ?thesis by simp
qed

text \<open>
  Claim C1. For a context that holds a well-formed table, each of the five handlers
  keeps the rows: the first four return a table, the salary handler returns one unless
  it raises, and the returned table has the row index of the input (the same rows in the
  same order), one entry per row in every column, and in every column that the handler
  did not write the unchanged data of an input column.
\<close>

theorem stages_preserve_rows:
  assumes "df ctx = Some d" and "well_formed d"
  shows "(\<exists>ctx' d'. clean_columns_handle ctx = Return ctx' \<and> df ctx' = Some d'
            \<and> preserves_rows [] d d')
       \<and> (\<exists>ctx' d'. job_category_handle ctx = Return ctx' \<and> df ctx' = Some d'
            \<and> preserves_rows [ascii ''job_category'', ascii ''current_job_category''] d d')
       \<and> (\<exists>ctx' d'. parse_education_handle ctx = Return ctx' \<and> df ctx' = Some d'
            \<and> preserves_rows [ascii ''education_level'', ascii ''education_year''] d d')
       \<and> (\<exists>ctx' d'. parse_location_handle ctx = Return ctx' \<and> df ctx' = Some d'
            \<and> preserves_rows
                 [ascii ''city'', ascii ''relocate_ready'', ascii ''trips_ready''] d d')
       \<and> (\<forall>ctx'. parse_salary_handle load ctx = Return ctx' \<longrightarrow>
            (\<exists>d'. df ctx' = Some d'
               \<and> preserves_rows [ascii ''salary_currency'', ascii ''target_salary_rub''] d d'))"
proof -
  have r: "rectangular d" using assms(2) by (simp add: well_formed_def)
  show ?thesis
    using clean_preserves [OF assms(1) r] job_preserves [OF assms(1) r]
      education_preserves [OF assms(1) r] location_preserves [OF assms(1) r]
      salary_preserves [OF _ assms(1) r]
    by blast
qed

lemma example_well_formed: "well_formed example_df"
  by (simp add: well_formed_def rectangular_def labels_def nrows_def example_df_def
      SALARY_COL_def ascii_def)

text \<open>The example table has three rows and passes through all five handlers.\<close>

theorem stages_preserve_rows_witness:
  "index example_df = [0, 1, 2]
   \<and> (\<exists>ctx' d'. clean_columns_handle example_ctx = Return ctx' \<and> df ctx' = Some d'
        \<and> preserves_rows [] example_df d')
   \<and> (\<exists>ctx' d'. job_category_handle example_ctx = Return ctx' \<and> df ctx' = Some d'
        \<and> preserves_rows [ascii ''job_category'', ascii ''current_job_category'']
             example_df d')
   \<and> (\<exists>ctx' d'. parse_education_handle example_ctx = Return ctx' \<and> df ctx' = Some d'
        \<and> preserves_rows [ascii ''education_level'', ascii ''education_year'']
             example_df d')
   \<and> (\<exists>ctx' d'. parse_location_handle example_ctx = Return ctx' \<and> df ctx' = Some d'
        \<and> preserves_rows [ascii ''city'', ascii ''relocate_ready'', ascii ''trips_ready'']
             example_df d')
   \<and> (\<exists>ctx' d'. parse_salary_handle example_load example_ctx = Return ctx'
        \<and> df ctx' = Some d'
        \<and> preserves_rows [ascii ''salary_currency'', ascii ''target_salary_rub'']
             example_df d')"
proof -
  have e: "df example_ctx = Some example_df" by (simp add: example_ctx_def)
  have i: "index example_df = [0, 1, 2]" by (simp add: example_df_def)
  note t = stages_preserve_rows [OF e example_well_formed, of example_load]
  from example_returns obtain ctx' where
    r: "parse_salary_handle example_load example_ctx = Return ctx'" by blast
  with t have "\<exists>d'. df ctx' = Some d'
      \<and> preserves_rows [ascii ''salary_currency'', ascii ''target_salary_rub''] example_df d'"
    by blast
  with r have "\<exists>ctx' d'. parse_salary_handle example_load example_ctx = Return ctx'
        \<and> df ctx' = Some d'
        \<and> preserves_rows [ascii ''salary_currency'', ascii ''target_salary_rub'']
             example_df d'"
    by blast
  with t i show ?thesis by blast
qed

subsection \<open>Diagnostics of the salary handler\<close>

lemma diag_keys_differ:
  "ascii ''fx_rates_source'' \<noteq> ascii ''rows_with_nan_target''"
  "ascii ''fx_rates_source'' \<noteq> ascii ''nan_target_examples''"
  "ascii ''fx_rates_source'' \<noteq> ascii ''target_zeros''"
  "ascii ''rows_with_nan_target'' \<noteq> ascii ''nan_target_examples''"
  "ascii ''rows_with_nan_target'' \<noteq> ascii ''target_zeros''"
  "ascii ''nan_target_examples'' \<noteq> ascii ''target_zeros''"
  by (simp_all add: ascii_def)

text \<open>
  Claim C6, evaluated on the example table. Its third row, "0 usd", has the converted
  amount zero when the loop reaches the test \<open>rub <= 0\<close>, and the detected currency
  USD. The handler counts the zeros of the finished target column, from which that test
  has kept every zero, so \<open>target_zeros\<close> is 0 and not 1; and the sample of null rows
  reads the column \<open>salary_currency\<close>, which is written on success only, so it holds the
  empty string and not USD for that row.
\<close>

theorem target_zeros_counterexample:
  "length (filter (zero_before_rejection (rates example_rates)) (column example_df SALARY_COL))
     = 1
   \<and> detect_currency (ascii ''0 usd'') = Some (ascii ''USD'')
   \<and> result_diag (parse_salary_handle example_load example_ctx) (ascii ''rows_with_nan_target'')
     = Some (DInt 2)
   \<and> result_diag (parse_salary_handle example_load example_ctx) (ascii ''target_zeros'')
     = Some (DInt 0)
   \<and> result_diag (parse_salary_handle example_load example_ctx) (ascii ''nan_target_examples'')
     = Some (DFrame
         \<lparr>index = [1, 2],
          columns =
            [(SALARY_COL, [Str negotiable_text, Str (ascii ''0 usd'')]),
             (ascii ''salary_currency'', [Str [], Str []])]\<rparr>)"
proof -
  have z0: "\<not> zero_before_rejection (rates example_rates) (Str range_text)"
    by (simp add: zero_before_rejection_def example_rates_def range_text_def salary_defs
        str_defs float_defs)
  have z1: "\<not> zero_before_rejection (rates example_rates) (Str negotiable_text)"
    by (simp add: zero_before_rejection_def example_rates_def negotiable_text_def salary_defs
        str_defs float_defs)
  have z2: "zero_before_rejection (rates example_rates) (Str (ascii ''0 usd''))"
    by (simp add: zero_before_rejection_def example_rates_def salary_defs str_defs float_defs)
  have a: "length (filter (zero_before_rejection (rates example_rates))
      (column example_df SALARY_COL)) = 1"
    unfolding example_salary_column using z0 z1 z2 by simp
  have b: "detect_currency (ascii ''0 usd'') = Some (ascii ''USD'')"
    by (simp add: detect_currency_def Let_def lower_def lower_cp_def ascii_def)
  have e: "df example_ctx = Some example_df" "output_dir example_ctx = ascii ''out''"
    "diag example_ctx = Map.empty"
    by (simp_all add: example_ctx_def)
  have l: "SALARY_COL \<in> set (labels example_df)"
    by (simp add: labels_def example_df_def)
  have ix: "index example_df = [0, 1, 2]" by (simp add: example_df_def)
  have r: "parse_salary_handle example_load example_ctx
      = Return (example_ctx
          \<lparr>diag :=
             [ascii ''fx_rates_source'' \<mapsto> DStr (source example_rates),
              ascii ''rows_with_nan_target'' \<mapsto> DInt 2,
              ascii ''nan_target_examples'' \<mapsto>
                DFrame
                  \<lparr>index = [1, 2],
                   columns =
                     [(SALARY_COL, [Str negotiable_text, Str (ascii ''0 usd'')]),
                      (ascii ''salary_currency'', [Str [], Str []])]\<rparr>,
              ascii ''target_zeros'' \<mapsto> DInt 0],
           df :=
             Some (set_column
               (set_column example_df (ascii ''salary_currency'')
                  [Str (ascii ''RUB''), Str [], Str []])
               (ascii ''target_salary_rub'') [Num 90000, NaN, NaN])\<rparr>)"
    using l salary_labels_differ
    by (simp add: parse_salary_handle_def e example_load_def Let_def put_diag_def example_loop
        example_rows head_def loc_def select_rows_def ix example_salary_column)
  show ?thesis
    using a b diag_keys_differ by (simp add: r result_diag_def)
qed

end
